theory Spec2Isabelle
  imports Complex_Main "HOL-Library.Sublist" "HOL-Library.Multiset"
begin

section \<open>The flows of StudyBuddy AI and their post-processing\<close>

text \<open>
  The flows under \<^verbatim>\<open>src/ai/flows\<close> all have one shape: they build the input of a prompt,
  await the prompt, and post-process the output. The embedding makes the three effects
  of that shape explicit.

  \<^item> A JavaScript \<^verbatim>\<open>Error\<close> is the value \<open>Error msg\<close>; a flow that throws returns
    \<open>Inl (Error msg)\<close>.
  \<^item> The prompt is a parameter: \<open>prompt inp\<close> is \<open>Inl e\<close> when the call throws (the
    endpoint is overloaded, say), \<open>Inr None\<close> when the call returns with no output
    (\<^verbatim>\<open>output\<close> is \<^verbatim>\<open>null\<close> or \<^verbatim>\<open>undefined\<close>) and \<open>Inr (Some out)\<close> otherwise.
  \<^item> Every flow returns, beside its result, the list of the prompt inputs it sent to the
    model, in order: the empty list says that no model call was issued.
\<close>

datatype error = Error string

type_synonym ('i, 'o) prompt = "'i \<Rightarrow> error + 'o option"

type_synonym ('r, 'i) flow_result = "(error + 'r) \<times> 'i list"

text \<open>
  Modelled from the spec: \<^verbatim>\<open>ai.defineFlow\<close>, of the Genkit library that every flow is
  defined with; its code is not under \<^verbatim>\<open>src\<close>. The specification has every flow validate
  the output against its schema and return a typed result or fail, and has an output
  that fails the schema, or that is nothing at all, always fatal. So the flow runs its
  body and checks the value the body returns: a value of the record type of the output
  conforms to the schema, a missing value (\<^verbatim>\<open>undefined\<close>) does not, and the flow throws
  for it. An error of the body is the error of the flow, and the calls sent to the
  model are those of the body. The check of the input that the flow runs before its
  body is not modelled: the flows are stated on the input as their body receives it.
\<close>

definition defineFlow :: "('i \<Rightarrow> ('o option, 'p) flow_result) \<Rightarrow> 'i \<Rightarrow> ('o, 'p) flow_result" where
  "defineFlow body input =
     (case body input of
        (Inl e, calls) \<Rightarrow> (Inl e, calls)
      | (Inr None, calls) \<Rightarrow> (Inl (Error ''Schema validation failed.''), calls)
      | (Inr (Some output), calls) \<Rightarrow> (Inr output, calls))"

subsection \<open>JavaScript strings\<close>

text \<open>
  \<^verbatim>\<open>a || b\<close> on an optional string: \<^verbatim>\<open>undefined\<close> and the empty string are falsy.
\<close>

definition truthy :: "string option \<Rightarrow> bool" where
  "truthy s = (case s of None \<Rightarrow> False | Some t \<Rightarrow> t \<noteq> [])"

definition or_else :: "string option \<Rightarrow> string \<Rightarrow> string" where
  "or_else s d = (case s of None \<Rightarrow> d | Some t \<Rightarrow> if t = [] then d else t)"

text \<open>
  A natural number in a template string, \<^verbatim>\<open>${n}\<close>: its decimal digits. \<open>digit_char\<close>
  is only applied to a number below 10.
\<close>

definition digit_char :: "nat \<Rightarrow> char" where
  "digit_char n = ''0123456789'' ! n"

function toString :: "nat \<Rightarrow> string" where
  "toString n = (if n < 10 then [digit_char n] else toString (n div 10) @ [digit_char (n mod 10)])"
  by pat_completeness auto
termination
  by (relation "measure (\<lambda>n. n)") auto

declare toString.simps [simp del]

subsection \<open>generate-test-flow.ts\<close>

text \<open>
  \<^verbatim>\<open>GenerateTestInputSchema\<close> and \<^verbatim>\<open>GenerateTestOutputSchema\<close>. The fields of a question
  carry the prefix \<open>gq_\<close> and those of an option \<open>go_\<close>. The schema of the output has an
  id be a string, which may be empty. The flow treats an id that is \<^verbatim>\<open>undefined\<close> and one
  that is empty alike (\<^verbatim>\<open>q.id || ...\<close>), so an id of the model's output is an optional
  string here, and what is stated of the flow holds for either; it also tests
  \<^verbatim>\<open>!output.questions\<close>, so the list of questions is optional as well.
\<close>

record GenerateTestInput =
  gt_title :: string
  gt_subject :: "string option"
  gt_description :: "string option"
  numSubjective :: int
  numObjective :: int

datatype questionType = subjective | objective

record GeneratedOption =
  go_id :: "string option"
  go_text :: string

record GeneratedQuestion =
  gq_id :: "string option"
  gq_type :: questionType
  gq_questionText :: string
  gq_options :: "GeneratedOption list option"
  gq_correctAnswerKey :: "string option"
  gq_correctAnswerText :: "string option"

record GenerateTestOutput =
  gt_questions :: "GeneratedQuestion list option"

text \<open>
  The schema's own conditions on the input (\<^verbatim>\<open>.int().min(0)\<close> on both counts and the
  \<^verbatim>\<open>refine\<close>); the counts are integers by their type here. The flow is defined with
  the schema, and the checks of its body, modelled below, do not rely on it.
\<close>

definition GenerateTestInputSchema :: "GenerateTestInput \<Rightarrow> bool" where
  "GenerateTestInputSchema data =
     (0 \<le> numSubjective data \<and> 0 \<le> numObjective data \<and>
      (numObjective data > 0 \<or> numSubjective data > 0))"

text \<open>
  The callback of \<^verbatim>\<open>q.options?.map\<close>: the option with its id, or with the template string
  \<^verbatim>\<open>${questionId}_opt${optIndex}\<close> for a falsy id.
\<close>

definition optionWithId :: "string \<Rightarrow> nat \<times> GeneratedOption \<Rightarrow> GeneratedOption" where
  "optionWithId questionId p =
     (case p of (optIndex, opt) \<Rightarrow>
        opt\<lparr>go_id := Some (or_else (go_id opt) (questionId @ ''_opt'' @ toString optIndex))\<rparr>)"

text \<open>
  The callback of \<^verbatim>\<open>output.questions.map\<close>. \<open>now index\<close> is the value \<^verbatim>\<open>Date.now()\<close>
  returns while the callback runs on the question at \<open>index\<close>: the clock is read once
  for every question, and only its value for a question without id is used. An array
  is truthy, so \<^verbatim>\<open>optionsWithIds || []\<close> is the empty array only for \<^verbatim>\<open>undefined\<close>.
\<close>

definition questionWithIds :: "(nat \<Rightarrow> nat) \<Rightarrow> nat \<times> GeneratedQuestion \<Rightarrow> GeneratedQuestion" where
  "questionWithIds now p =
     (case p of (index, q) \<Rightarrow>
        let questionId = or_else (gq_id q) (''q_'' @ toString (now index) @ ''_'' @ toString index);
            optionsWithIds = map_option (\<lambda>opts. map (optionWithId questionId) (enumerate 0 opts)) (gq_options q)
        in q\<lparr>gq_id := Some questionId,
             gq_options :=
               (if gq_type q = objective
                then Some (case optionsWithIds of None \<Rightarrow> [] | Some os \<Rightarrow> os)
                else None),
             gq_correctAnswerKey :=
               (if gq_type q = objective then gq_correctAnswerKey q else None)\<rparr>)"

definition backfillIds :: "(nat \<Rightarrow> nat) \<Rightarrow> GeneratedQuestion list \<Rightarrow> GeneratedQuestion list" where
  "backfillIds now qs = map (questionWithIds now) (enumerate 0 qs)"

text \<open>The body of the flow, and the flow that \<^verbatim>\<open>ai.defineFlow\<close> makes of it.\<close>

definition generateTestInternalFlow_body ::
  "(nat \<Rightarrow> nat) \<Rightarrow> (GenerateTestInput, GenerateTestOutput) prompt \<Rightarrow> GenerateTestInput
     \<Rightarrow> (GenerateTestOutput option, GenerateTestInput) flow_result" where
  "generateTestInternalFlow_body now prompt input =
     (if numObjective input + numSubjective input \<le> 0
      then (Inl (Error ''Total number of questions must be greater than 0.''), [])
      else if numObjective input + numSubjective input > 20
      then (Inl (Error ''Cannot generate more than 20 questions in total at once.''), [])
      else
        (case prompt input of
           Inl e \<Rightarrow> (Inl e, [input])
         | Inr None \<Rightarrow>
             (Inl (Error ''AI failed to generate questions or output was empty.''), [input])
         | Inr (Some output) \<Rightarrow>
             (case gt_questions output of
                None \<Rightarrow>
                  (Inl (Error ''AI failed to generate questions or output was empty.''), [input])
              | Some qs \<Rightarrow>
                  (Inr (Some (output\<lparr>gt_questions := Some (backfillIds now qs)\<rparr>)), [input]))))"

definition generateTestInternalFlow ::
  "(nat \<Rightarrow> nat) \<Rightarrow> (GenerateTestInput, GenerateTestOutput) prompt \<Rightarrow> GenerateTestInput
     \<Rightarrow> (GenerateTestOutput, GenerateTestInput) flow_result" where
  "generateTestInternalFlow now prompt = defineFlow (generateTestInternalFlow_body now prompt)"

definition generateTest ::
  "(nat \<Rightarrow> nat) \<Rightarrow> (GenerateTestInput, GenerateTestOutput) prompt \<Rightarrow> GenerateTestInput
     \<Rightarrow> (GenerateTestOutput, GenerateTestInput) flow_result" where
  "generateTest now prompt input = generateTestInternalFlow now prompt input"

subsection \<open>generate-study-plan-flow.ts\<close>

text \<open>
  \<^verbatim>\<open>GenerateStudyPlanInputSchema\<close> (\<^verbatim>\<open>lib/planner-schemas.ts\<close>) and the output schema of the
  flow. The prompt's input is the flow's input with two more fields, \<^verbatim>\<open>currentDate\<close> and
  \<^verbatim>\<open>preferredStudyDaysString\<close>.
\<close>

record Exam =
  exam_id :: string
  exam_subject :: string
  exam_date :: string
  exam_type :: "string option"

datatype learningPace = relaxed | moderate | intensive

datatype weekday = Monday | Tuesday | Wednesday | Thursday | Friday | Saturday | Sunday

record GenerateStudyPlanInput =
  exams :: "Exam list"
  weakAreas :: "string list option"
  learningPace :: learningPace
  studyHoursPerWeek :: "rat option"
  preferredStudyDays :: "weekday list option"
  sp_notes :: "string option"

record StudyPlanPromptInput = GenerateStudyPlanInput +
  currentDate :: string
  preferredStudyDaysString :: "string option"

record StudySession =
  ss_date :: string
  startTime :: string
  endTime :: string
  ss_subject :: string
  activity :: string
  isBreak :: bool

record DailySessions =
  ds_date :: string
  sessions :: "StudySession list"

record GenerateStudyPlanOutput =
  planTitle :: "string option"
  dailySessions :: "DailySessions list"
  summaryNotes :: "string option"

fun weekdayName :: "weekday \<Rightarrow> string" where
  "weekdayName Monday = ''Monday''"
| "weekdayName Tuesday = ''Tuesday''"
| "weekdayName Wednesday = ''Wednesday''"
| "weekdayName Thursday = ''Thursday''"
| "weekdayName Friday = ''Friday''"
| "weekdayName Saturday = ''Saturday''"
| "weekdayName Sunday = ''Sunday''"

text \<open>\<^verbatim>\<open>Array.prototype.join\<close>.\<close>

fun join :: "string \<Rightarrow> string list \<Rightarrow> string" where
  "join sep [] = []"
| "join sep [x] = x"
| "join sep (x # y # ys) = x @ sep @ join sep (y # ys)"

text \<open>
  \<^verbatim>\<open>String.prototype.split\<close> with a separator of one character: the pieces between the
  separators, at least one piece.
\<close>

fun split :: "char \<Rightarrow> string \<Rightarrow> string list" where
  "split c [] = [[]]"
| "split c (x # xs) =
     (if x = c then [] # split c xs
      else (case split c xs of [] \<Rightarrow> [[x]] | p # ps \<Rightarrow> (x # p) # ps))"

text \<open>
  A number that may be \<^verbatim>\<open>NaN\<close> is an optional integer, \<open>None\<close> for \<^verbatim>\<open>NaN\<close>. \<^verbatim>\<open>Number(s)\<close>
  is modelled on the strings a clock time is made of: a run of decimal digits has its
  decimal value (the value of a digit is its position among the ten digits) and the
  empty string is 0. Every other string is \<^verbatim>\<open>NaN\<close> here. JavaScript also reads
  signs, fractions, exponents, other radixes and blanks around the digits; no
  statement below is about a string of these forms.
\<close>

definition isDigit :: "char \<Rightarrow> bool" where
  "isDigit c = (c \<in> set ''0123456789'')"

definition digitValue :: "char \<Rightarrow> int" where
  "digitValue c = int (length (takeWhile (\<lambda>d. d \<noteq> c) ''0123456789''))"

definition decimal :: "string \<Rightarrow> int" where
  "decimal s = foldl (\<lambda>a c. 10 * a + digitValue c) 0 s"

definition Number :: "string \<Rightarrow> int option" where
  "Number s = (if list_all isDigit s then Some (decimal s) else None)"

text \<open>Array destructuring, \<^verbatim>\<open>[a, b] = xs\<close>: a missing element is \<^verbatim>\<open>undefined\<close>.\<close>

fun element :: "'a list \<Rightarrow> nat \<Rightarrow> 'a option" where
  "element [] i = None"
| "element (x # xs) 0 = Some x"
| "element (x # xs) (Suc i) = element xs i"

text \<open>
  \<^verbatim>\<open>convertTime\<close>, the local function of the comparator of the sessions. \<^verbatim>\<open>minutes\<close> is
  \<^verbatim>\<open>undefined\<close> when the time has no colon, and the sum is \<^verbatim>\<open>NaN\<close> then; a comparison
  with \<^verbatim>\<open>NaN\<close> is false.
\<close>

definition convertTime :: "string \<Rightarrow> int option" where
  "convertTime timeStr =
     (let parts = split CHR '' '' timeStr;
          time = (case element parts 0 of None \<Rightarrow> [] | Some t \<Rightarrow> t);
          modifier = element parts 1;
          nums = map Number (split CHR '':'' time);
          hours = Option.bind (element nums 0) (\<lambda>h. h);
          minutes = Option.bind (element nums 1) (\<lambda>m. m);
          hours1 = (case hours of
                      None \<Rightarrow> None
                    | Some h \<Rightarrow> if modifier = Some ''PM'' \<and> h < 12 then Some (h + 12) else Some h);
          hours2 = (case hours1 of
                      None \<Rightarrow> None
                    | Some h \<Rightarrow> if modifier = Some ''AM'' \<and> h = 12 then Some 0 else Some h)
      in (case (hours2, minutes) of
            (Some h, Some m) \<Rightarrow> Some (h * 60 + m)
          | _ \<Rightarrow> None))"

text \<open>
  \<^verbatim>\<open>Array.prototype.sort(comparefn)\<close>. A comparator returns a number or \<^verbatim>\<open>NaN\<close>, and the
  sort reads \<^verbatim>\<open>NaN\<close> as 0 (ECMAScript, SortCompare). The sort is stable; it is written
  here as the stable insertion sort, which every conforming sort agrees with when the
  comparator is a consistent one (\<open>sort_js_sort_key\<close> below). The language leaves the
  order under an inconsistent comparator to the implementation. The one array sorted
  below under such a comparator has three elements, and the comparator is \<^verbatim>\<open>NaN\<close> on
  its two pairs of neighbours: the sort of V8, which runs the flow, takes such an array
  for a run in order and leaves it as it is, as the insertion sort does.
\<close>

definition SortCompare :: "('a \<Rightarrow> 'a \<Rightarrow> int option) \<Rightarrow> 'a \<Rightarrow> 'a \<Rightarrow> int" where
  "SortCompare comparefn x y = (case comparefn x y of None \<Rightarrow> 0 | Some v \<Rightarrow> v)"

fun insertSorted :: "('a \<Rightarrow> 'a \<Rightarrow> int option) \<Rightarrow> 'a \<Rightarrow> 'a list \<Rightarrow> 'a list" where
  "insertSorted comparefn x [] = [x]"
| "insertSorted comparefn x (y # ys) =
     (if SortCompare comparefn x y \<le> 0 then x # y # ys
      else y # insertSorted comparefn x ys)"

definition sort_js :: "('a \<Rightarrow> 'a \<Rightarrow> int option) \<Rightarrow> 'a list \<Rightarrow> 'a list" where
  "sort_js comparefn xs = foldr (insertSorted comparefn) xs []"

text \<open>\<^verbatim>\<open>a - b\<close> on numbers that may be \<^verbatim>\<open>NaN\<close>.\<close>

definition minus_js :: "int option \<Rightarrow> int option \<Rightarrow> int option" where
  "minus_js a b = (case (a, b) of (Some x, Some y) \<Rightarrow> Some (x - y) | _ \<Rightarrow> None)"

text \<open>
  The two comparators. \<open>getTime s\<close> stands for \<^verbatim>\<open>new Date(s).getTime()\<close>, the time value
  of the date the engine parses from \<open>s\<close>, \<open>None\<close> when it is \<^verbatim>\<open>NaN\<close> (an invalid date).
  Which strings parse, and to what, is the engine's: the parser is a parameter.
\<close>

definition compareDays :: "(string \<Rightarrow> int option) \<Rightarrow> DailySessions \<Rightarrow> DailySessions \<Rightarrow> int option" where
  "compareDays getTime a b = minus_js (getTime (ds_date a)) (getTime (ds_date b))"

definition compareSessions :: "StudySession \<Rightarrow> StudySession \<Rightarrow> int option" where
  "compareSessions s1 s2 = minus_js (convertTime (startTime s1)) (convertTime (startTime s2))"

text \<open>
  The body of \<^verbatim>\<open>if (output?.dailySessions)\<close>: the days are sorted, then the sessions of
  every day. Both arrays are required by the schema and an array is truthy, so the
  two guards only skip an output that is missing.
\<close>

definition sortPlan :: "(string \<Rightarrow> int option) \<Rightarrow> GenerateStudyPlanOutput \<Rightarrow> GenerateStudyPlanOutput" where
  "sortPlan getTime output =
     output\<lparr>dailySessions :=
       map (\<lambda>day. day\<lparr>sessions := sort_js compareSessions (sessions day)\<rparr>)
         (sort_js (compareDays getTime) (dailySessions output))\<rparr>"

definition studyPlanPromptInput :: "string \<Rightarrow> GenerateStudyPlanInput \<Rightarrow> StudyPlanPromptInput" where
  "studyPlanPromptInput today input =
     GenerateStudyPlanInput.extend input
       (StudyPlanPromptInput.fields today
          (case preferredStudyDays input of
             None \<Rightarrow> None
           | Some days \<Rightarrow> if days = [] then None else Some (join '', '' (map weekdayName days))))"

text \<open>
  The body of the flow. \<open>today\<close> is \<^verbatim>\<open>new Date().toISOString().split('T')[0]\<close>. The body
  ends with \<^verbatim>\<open>return output!\<close>: the assertion is erased when the code is compiled, so
  the body returns a missing output as it is, and the check of the flow fails for it.
\<close>

definition generateStudyPlanFlow_body ::
  "(string \<Rightarrow> int option) \<Rightarrow> string \<Rightarrow> (StudyPlanPromptInput, GenerateStudyPlanOutput) prompt
     \<Rightarrow> GenerateStudyPlanInput \<Rightarrow> (GenerateStudyPlanOutput option, StudyPlanPromptInput) flow_result" where
  "generateStudyPlanFlow_body getTime today prompt input =
     (let promptInput = studyPlanPromptInput today input
      in (case prompt promptInput of
            Inl e \<Rightarrow> (Inl e, [promptInput])
          | Inr output \<Rightarrow> (Inr (map_option (sortPlan getTime) output), [promptInput])))"

definition generateStudyPlanFlow ::
  "(string \<Rightarrow> int option) \<Rightarrow> string \<Rightarrow> (StudyPlanPromptInput, GenerateStudyPlanOutput) prompt
     \<Rightarrow> GenerateStudyPlanInput \<Rightarrow> (GenerateStudyPlanOutput, StudyPlanPromptInput) flow_result" where
  "generateStudyPlanFlow getTime today prompt =
     defineFlow (generateStudyPlanFlow_body getTime today prompt)"

definition generateStudyPlan ::
  "(string \<Rightarrow> int option) \<Rightarrow> string \<Rightarrow> (StudyPlanPromptInput, GenerateStudyPlanOutput) prompt
     \<Rightarrow> GenerateStudyPlanInput \<Rightarrow> (GenerateStudyPlanOutput, StudyPlanPromptInput) flow_result" where
  "generateStudyPlan getTime today prompt input = generateStudyPlanFlow getTime today prompt input"

subsection \<open>resolve-question.ts, summarize-conversation.ts, generate-flashcard-answer-flow.ts\<close>

text \<open>
  Three flows with the same body, \<^verbatim>\<open>const {output} = await prompt(input); return output!;\<close>.
  The assertion \<^verbatim>\<open>!\<close> is for the type checker only: the body returns whatever the
  prompt gave, and it is the flow that checks the value returned.
\<close>

record ResolveQuestionInput =
  question :: string
  image :: "string option"

record ResolveQuestionOutput =
  answer :: string





record SummarizeConversationOutput =
  summary :: string





record GenerateFlashcardAnswerOutput =
  fa_answerText :: string




subsection \<open>generate-multiple-flashcards-flow.ts\<close>

text \<open>
  \<^verbatim>\<open>numberOfCards\<close> is \<^verbatim>\<open>z.number().optional()\<close>: any number, or absent. A number is a
  rational here. \<^verbatim>\<open>input.numberOfCards || 5\<close> is 5 for an absent count and for 0, the
  falsy number.
\<close>

record GenerateMultipleFlashcardsInput =
  topic :: string
  numberOfCards :: "rat option"

record FlashcardPair =
  fc_questionText :: string
  fc_answerText :: string

record GenerateMultipleFlashcardsOutput =
  flashcards :: "FlashcardPair list"

definition generateMultipleFlashcardsFlow_body ::
  "(GenerateMultipleFlashcardsInput, GenerateMultipleFlashcardsOutput) prompt
     \<Rightarrow> GenerateMultipleFlashcardsInput
     \<Rightarrow> (GenerateMultipleFlashcardsOutput option, GenerateMultipleFlashcardsInput) flow_result" where
  "generateMultipleFlashcardsFlow_body prompt input =
     (case prompt input of
        Inl e \<Rightarrow> (Inl e, [input])
      | Inr output \<Rightarrow> (Inr output, [input]))"

definition generateMultipleFlashcardsFlow ::
  "(GenerateMultipleFlashcardsInput, GenerateMultipleFlashcardsOutput) prompt
     \<Rightarrow> GenerateMultipleFlashcardsInput
     \<Rightarrow> (GenerateMultipleFlashcardsOutput, GenerateMultipleFlashcardsInput) flow_result" where
  "generateMultipleFlashcardsFlow prompt = defineFlow (generateMultipleFlashcardsFlow_body prompt)"

definition effectiveNumCards :: "GenerateMultipleFlashcardsInput \<Rightarrow> rat" where
  "effectiveNumCards input =
     max (case numberOfCards input of None \<Rightarrow> 5 | Some n \<Rightarrow> if n = 0 then 5 else n) 5"

definition generateMultipleFlashcards ::
  "(GenerateMultipleFlashcardsInput, GenerateMultipleFlashcardsOutput) prompt
     \<Rightarrow> GenerateMultipleFlashcardsInput
     \<Rightarrow> (GenerateMultipleFlashcardsOutput, GenerateMultipleFlashcardsInput) flow_result" where
  "generateMultipleFlashcards prompt input =
     generateMultipleFlashcardsFlow prompt (input\<lparr>numberOfCards := Some (effectiveNumCards input)\<rparr>)"

subsection \<open>The test types of types/index.ts and analyze-test-results-flow.ts\<close>

text \<open>
  \<^verbatim>\<open>TestQuestion\<close> and \<^verbatim>\<open>TestQuestionOption\<close> of \<^verbatim>\<open>types/index.ts\<close>;
  \<^verbatim>\<open>TestQuestionForAnalysisSchema\<close> has the same fields, and the page copies them one
  by one into the input of the analysis. The fields carry the prefixes \<open>q_\<close> and
  \<open>opt_\<close>. \<^verbatim>\<open>userResponses\<close> is a \<^verbatim>\<open>Record<string, string>\<close>: a plain object, whose own
  properties are a map from question ids to answers.
\<close>

record TestQuestionOption =
  opt_id :: string
  opt_text :: string

record TestQuestion =
  q_id :: string
  q_type :: questionType
  q_questionText :: string
  q_options :: "TestQuestionOption list option"
  q_correctAnswerKey :: "string option"
  q_correctAnswerText :: "string option"

text \<open>
  The code reads a response with \<^verbatim>\<open>userResponses[q.id]\<close>. On a plain object the read gives
  the own property of that name when there is one, and otherwise the property that the
  object inherits from \<^verbatim>\<open>Object.prototype\<close> under that name, if any: a function (for
  \<^verbatim>\<open>__proto__\<close> the prototype itself), which is truthy and equal to no string. Only a
  name that is neither gives \<^verbatim>\<open>undefined\<close>.
\<close>

datatype jsvalue = Undefined | Str string | Inherited string

definition objectPrototypeKeys :: "string list" where
  "objectPrototypeKeys =
     [''constructor'', ''hasOwnProperty'', ''isPrototypeOf'', ''propertyIsEnumerable'',
      ''toLocaleString'', ''toString'', ''valueOf'', ''__defineGetter__'', ''__defineSetter__'',
      ''__lookupGetter__'', ''__lookupSetter__'', ''__proto__'']"

definition getProperty :: "(string \<rightharpoonup> string) \<Rightarrow> string \<Rightarrow> jsvalue" where
  "getProperty obj name =
     (case obj name of
        Some s \<Rightarrow> Str s
      | None \<Rightarrow> if name \<in> set objectPrototypeKeys then Inherited name else Undefined)"

definition truthy_value :: "jsvalue \<Rightarrow> bool" where
  "truthy_value v = (case v of Undefined \<Rightarrow> False | Str s \<Rightarrow> s \<noteq> [] | Inherited name \<Rightarrow> True)"

text \<open>
  A number of JavaScript is a double. \<open>toDouble x\<close> is the double nearest to the
  rational \<open>x \<ge> 0\<close>, a tie going to the even significand: with \<open>2 ^ e \<le> x < 2 ^ (e + 1)\<close>
  it is the multiple of \<open>2 ^ (e - 52)\<close> nearest to \<open>x\<close>. (No number met here is large or
  small enough to leave the normal range of the doubles.) A quotient or a product of
  two doubles is the double nearest to the exact one. The score of a report is such a
  number, given by its exact value.
\<close>

function bitLength :: "int \<Rightarrow> nat" where
  "bitLength n = (if n \<le> 0 then 0 else Suc (bitLength (n div 2)))"
  by pat_completeness auto
termination
  by (relation "measure nat") auto

declare bitLength.simps [simp del]

definition roundHalfEven :: "rat \<Rightarrow> int" where
  "roundHalfEven y =
     (let f = \<lfloor>y\<rfloor>; r = y - of_int f
      in if r < 1 / 2 then f else if r > 1 / 2 then f + 1 else if even f then f else f + 1)"

definition exponent :: "rat \<Rightarrow> int" where
  "exponent x =
     (case quotient_of x of (p, q) \<Rightarrow>
        let e0 = int (bitLength p) - int (bitLength q)
        in if x < 2 powi e0 then e0 - 1 else e0)"

definition toDouble :: "rat \<Rightarrow> rat" where
  "toDouble x =
     (if x = 0 then 0
      else of_int (roundHalfEven (x * 2 powi (52 - exponent x))) * 2 powi (exponent x - 52))"

record AnalyzeTestResultsInput =
  testTitle :: string
  testSubject :: "string option"
  testDescription :: "string option"
  ar_questions :: "TestQuestion list"
  ar_userResponses :: "string \<rightharpoonup> string"

record QuestionAnalysis =
  questionId :: string
  qa_questionText :: string
  userAnswerText :: string
  qa_correctAnswerText :: "string option"
  isCorrect :: bool
  feedback :: string
  suggestedScoreOutOfTen :: "rat option"

record TestAnalysisReport =
  overallScore :: "rat option"
  overallFeedback :: string
  questionAnalyses :: "QuestionAnalysis list"

record ProcessedQuestionForPrompt = TestQuestion +
  userAnswerTextForPrompt :: jsvalue
  questionDisplayNumber :: nat

record ProcessedDataForPrompt =
  pd_testTitle :: string
  pd_testSubject :: "string option"
  pd_testDescription :: "string option"
  pd_questions :: "ProcessedQuestionForPrompt list"

text \<open>
  The callback of \<^verbatim>\<open>input.questions.map\<close> in the flow, in two parts: the text the
  \<^verbatim>\<open>if\<close> statement leaves in \<^verbatim>\<open>userAnswerTextForPrompt\<close>, and the object returned.
  \<^verbatim>\<open>if (rawUserAnswer)\<close> is false for \<^verbatim>\<open>undefined\<close> and for the empty string;
  \<^verbatim>\<open>q.options\<close> is truthy for every array, the empty one too. The text is declared a
  string, but in the last branch it is whatever the read gave.
\<close>

definition resolveUserAnswer :: "(string \<rightharpoonup> string) \<Rightarrow> TestQuestion \<Rightarrow> jsvalue" where
  "resolveUserAnswer userResponses q =
     (let rawUserAnswer = getProperty userResponses (q_id q)
      in if truthy_value rawUserAnswer
         then (case (q_type q, q_options q) of
                 (objective, Some opts) \<Rightarrow>
                   (case find (\<lambda>opt. Str (opt_id opt) = rawUserAnswer) opts of
                      Some selectedOption \<Rightarrow> Str (opt_text selectedOption)
                    | None \<Rightarrow> Str ''Invalid option selected by user'')
               | _ \<Rightarrow> rawUserAnswer)
         else Str ''No answer provided'')"

definition processQuestion ::
  "(string \<rightharpoonup> string) \<Rightarrow> nat \<times> TestQuestion \<Rightarrow> ProcessedQuestionForPrompt" where
  "processQuestion userResponses p =
     (case p of (index, q) \<Rightarrow>
        TestQuestion.extend q
          (ProcessedQuestionForPrompt.fields (resolveUserAnswer userResponses q) (index + 1)))"

definition processedQuestions :: "AnalyzeTestResultsInput \<Rightarrow> ProcessedQuestionForPrompt list" where
  "processedQuestions input =
     map (processQuestion (ar_userResponses input)) (enumerate 0 (ar_questions input))"

definition processedDataForPrompt :: "AnalyzeTestResultsInput \<Rightarrow> ProcessedDataForPrompt" where
  "processedDataForPrompt input =
     \<lparr>pd_testTitle = testTitle input,
      pd_testSubject = testSubject input,
      pd_testDescription = testDescription input,
      pd_questions = processedQuestions input\<rparr>"

definition analyzeTestResultsInternalFlow_body ::
  "(ProcessedDataForPrompt, TestAnalysisReport) prompt \<Rightarrow> AnalyzeTestResultsInput
     \<Rightarrow> (TestAnalysisReport option, ProcessedDataForPrompt) flow_result" where
  "analyzeTestResultsInternalFlow_body thePrompt input =
     (case thePrompt (processedDataForPrompt input) of
        Inl e \<Rightarrow> (Inl e, [processedDataForPrompt input])
      | Inr None \<Rightarrow>
          (Inl (Error ''AI analysis failed to return an output.''), [processedDataForPrompt input])
      | Inr (Some output) \<Rightarrow> (Inr (Some output), [processedDataForPrompt input]))"

definition analyzeTestResultsInternalFlow ::
  "(ProcessedDataForPrompt, TestAnalysisReport) prompt \<Rightarrow> AnalyzeTestResultsInput
     \<Rightarrow> (TestAnalysisReport, ProcessedDataForPrompt) flow_result" where
  "analyzeTestResultsInternalFlow thePrompt = defineFlow (analyzeTestResultsInternalFlow_body thePrompt)"

definition analyzeTestResults ::
  "(ProcessedDataForPrompt, TestAnalysisReport) prompt \<Rightarrow> AnalyzeTestResultsInput
     \<Rightarrow> (TestAnalysisReport, ProcessedDataForPrompt) flow_result" where
  "analyzeTestResults thePrompt input = analyzeTestResultsInternalFlow thePrompt input"

subsection \<open>app/tests/[testId]/page.tsx: the basic report\<close>

text \<open>
  The fields of \<^verbatim>\<open>TestSet\<close> that the submission reads; \<^verbatim>\<open>userResponses\<close> is optional.
\<close>

record TestSet =
  ts_title :: string
  ts_subject :: "string option"
  ts_description :: "string option"
  ts_questions :: "TestQuestion list"
  ts_userResponses :: "(string \<rightharpoonup> string) option"

text \<open>
  \<^verbatim>\<open>String.prototype.trim\<close>, \<^verbatim>\<open>toLowerCase\<close> and \<^verbatim>\<open>includes\<close> on strings of ASCII
  characters.
\<close>

definition isWhiteSpace :: "char \<Rightarrow> bool" where
  "isWhiteSpace c = (c \<in> set [CHR 0x09, CHR 0x0A, CHR 0x0B, CHR 0x0C, CHR 0x0D, CHR 0x20])"

definition trim :: "string \<Rightarrow> string" where
  "trim s = rev (dropWhile isWhiteSpace (rev (dropWhile isWhiteSpace s)))"

definition toLowerCase_char :: "char \<Rightarrow> char" where
  "toLowerCase_char c =
     (case map_of (zip ''ABCDEFGHIJKLMNOPQRSTUVWXYZ'' ''abcdefghijklmnopqrstuvwxyz'') c of
        None \<Rightarrow> c
      | Some l \<Rightarrow> l)"

definition toLowerCase :: "string \<Rightarrow> string" where
  "toLowerCase s = map toLowerCase_char s"

fun includes_js :: "string \<Rightarrow> string \<Rightarrow> bool" where
  "includes_js [] searchString = (searchString = [])"
| "includes_js (c # s) searchString = (prefix searchString (c # s) \<or> includes_js s searchString)"

text \<open>
  The callback of \<^verbatim>\<open>submittedTest.questions.map\<close> in \<^verbatim>\<open>generateBasicReport\<close>. It updates
  the two counters of the enclosing function, so it takes them and returns them:
  \<open>(correctObjectiveAnswers, totalObjectiveQuestions)\<close>. \<open>basicEntry\<close> is the object it
  returns. For a subjective question the callback calls \<^verbatim>\<open>userAnswerValue?.trim()\<close>: on
  \<^verbatim>\<open>undefined\<close> the call is skipped, on a string it trims, and on a value inherited from
  the prototype, which has no \<^verbatim>\<open>trim\<close>, it throws a \<^verbatim>\<open>TypeError\<close>.
\<close>

definition basicEntry :: "TestQuestion \<Rightarrow> string \<Rightarrow> bool \<Rightarrow> QuestionAnalysis" where
  "basicEntry q userAnswerText' isCorrect' =
     \<lparr>questionId = q_id q,
      qa_questionText = q_questionText q,
      userAnswerText = userAnswerText',
      qa_correctAnswerText =
        Some (or_else (q_correctAnswerText q)
          (if q_type q = objective then ''Correct answer not specified''
           else ''Model answer not specified'')),
      isCorrect = isCorrect',
      feedback = ''AI-powered feedback is temporarily unavailable for this question.'',
      suggestedScoreOutOfTen = None\<rparr>"

definition basicAnalysis ::
  "(string \<rightharpoonup> string) option \<Rightarrow> TestQuestion \<Rightarrow> nat \<times> nat
     \<Rightarrow> error + QuestionAnalysis \<times> nat \<times> nat" where
  "basicAnalysis userResponses q counters =
     (case counters of (correctObjectiveAnswers, totalObjectiveQuestions) \<Rightarrow>
        let userAnswerValue =
              (case userResponses of None \<Rightarrow> Undefined | Some m \<Rightarrow> getProperty m (q_id q))
        in if q_type q = objective
           then
             let selectedOption =
                   (case q_options q of
                      None \<Rightarrow> None
                    | Some opts \<Rightarrow> find (\<lambda>opt. Str (opt_id opt) = userAnswerValue) opts);
                 userAnswerText' =
                   (case selectedOption of
                      Some opt \<Rightarrow> opt_text opt
                    | None \<Rightarrow>
                        if truthy_value userAnswerValue then ''Invalid option selected''
                        else ''Not Attempted'');
                 keyMatches =
                   (truthy_value userAnswerValue \<and>
                    (case q_correctAnswerKey q of
                       None \<Rightarrow> False
                     | Some k \<Rightarrow> userAnswerValue = Str k))
             in Inr (basicEntry q userAnswerText' keyMatches,
                     (if keyMatches then correctObjectiveAnswers + 1 else correctObjectiveAnswers),
                     totalObjectiveQuestions + 1)
           else
             (case userAnswerValue of
                Undefined \<Rightarrow>
                  Inr (basicEntry q ''Not Attempted'' False,
                       correctObjectiveAnswers, totalObjectiveQuestions)
              | Str s \<Rightarrow>
                  Inr (basicEntry q (if trim s = [] then ''Not Attempted'' else s) False,
                       correctObjectiveAnswers, totalObjectiveQuestions)
              | Inherited name \<Rightarrow> Inl (Error ''userAnswerValue?.trim is not a function'')))"

text \<open>The \<^verbatim>\<open>map\<close> over the questions: it stops at the first callback that throws.\<close>

fun basicAnalyses ::
  "(string \<rightharpoonup> string) option \<Rightarrow> TestQuestion list \<Rightarrow> nat \<times> nat
     \<Rightarrow> error + QuestionAnalysis list \<times> nat \<times> nat" where
  "basicAnalyses userResponses [] counters = Inr ([], counters)"
| "basicAnalyses userResponses (q # qs) counters =
     (case basicAnalysis userResponses q counters of
        Inl e \<Rightarrow> Inl e
      | Inr (a, counters') \<Rightarrow>
          (case basicAnalyses userResponses qs counters' of
             Inl e \<Rightarrow> Inl e
           | Inr (rest, final) \<Rightarrow> Inr (a # rest, final)))"

text \<open>
  \<^verbatim>\<open>(correctObjectiveAnswers / totalObjectiveQuestions) * 100\<close>: the quotient of the two
  counts is rounded to a double, and so is its product with 100.
\<close>

definition generateBasicReport :: "TestSet \<Rightarrow> error + TestAnalysisReport" where
  "generateBasicReport submittedTest =
     (case basicAnalyses (ts_userResponses submittedTest) (ts_questions submittedTest) (0, 0) of
        Inl e \<Rightarrow> Inl e
      | Inr (analyses, correctObjectiveAnswers, totalObjectiveQuestions) \<Rightarrow>
          Inr \<lparr>overallScore =
                 (if totalObjectiveQuestions > 0
                  then Some (toDouble
                         (toDouble (of_nat correctObjectiveAnswers / of_nat totalObjectiveQuestions)
                            * 100))
                  else None),
               overallFeedback = ''Basic report generated. AI analysis is temporarily unavailable. This report primarily reflects performance on objective questions.'',
               questionAnalyses = analyses\<rparr>)"

text \<open>
  The part of \<^verbatim>\<open>handleSubmitTest\<close> from \<^verbatim>\<open>const analysisInput\<close> to the end of the inner
  \<^verbatim>\<open>try\<close>/\<^verbatim>\<open>catch\<close>: the result is the report bound to \<^verbatim>\<open>analysisResult\<close>, or the error
  that leaves the \<^verbatim>\<open>catch\<close>: the one it throws again, or the one \<^verbatim>\<open>generateBasicReport\<close>
  throws inside it.
\<close>

definition analysisInput :: "TestSet \<Rightarrow> AnalyzeTestResultsInput" where
  "analysisInput submittedTest =
     \<lparr>testTitle = ts_title submittedTest,
      testSubject = ts_subject submittedTest,
      testDescription = ts_description submittedTest,
      ar_questions =
        map (\<lambda>q. \<lparr>q_id = q_id q, q_type = q_type q, q_questionText = q_questionText q,
                  q_options = q_options q, q_correctAnswerKey = q_correctAnswerKey q,
                  q_correctAnswerText = q_correctAnswerText q\<rparr>) (ts_questions submittedTest),
      ar_userResponses =
        (case ts_userResponses submittedTest of None \<Rightarrow> Map.empty | Some m \<Rightarrow> m)\<rparr>"

definition modelOverloaded :: "string \<Rightarrow> bool" where
  "modelOverloaded aiErrorMessage =
     (includes_js aiErrorMessage ''503'' \<or>
      includes_js (toLowerCase aiErrorMessage) ''overloaded'' \<or>
      includes_js (toLowerCase aiErrorMessage) ''service unavailable'')"

definition analysisResult ::
  "(ProcessedDataForPrompt, TestAnalysisReport) prompt \<Rightarrow> TestSet \<Rightarrow> error + TestAnalysisReport" where
  "analysisResult thePrompt submittedTest =
     (case fst (analyzeTestResults thePrompt (analysisInput submittedTest)) of
        Inr report \<Rightarrow> Inr report
      | Inl (Error message) \<Rightarrow>
          let aiErrorMessage = (if message = [] then ''AI analysis failed.'' else message)
          in if modelOverloaded aiErrorMessage then generateBasicReport submittedTest
             else Inl (Error message))"

section \<open>Notions of the specification\<close>

text \<open>\<^verbatim>\<open>a <= b\<close> on numbers that may be \<^verbatim>\<open>NaN\<close>: false when either is \<^verbatim>\<open>NaN\<close>.\<close>

definition le_js :: "int option \<Rightarrow> int option \<Rightarrow> bool" where
  "le_js a b = (case (a, b) of (Some x, Some y) \<Rightarrow> x \<le> y | _ \<Rightarrow> False)"

text \<open>
  The condition on the answer key as the specification words it: a key that is present
  is the id of exactly one entry of the options.
\<close>

definition keyNamesOneOption :: "GeneratedQuestion \<Rightarrow> bool" where
  "keyNamesOneOption q =
     (case gq_correctAnswerKey q of
        None \<Rightarrow> True
      | Some k \<Rightarrow>
          length (filter (\<lambda>opt. go_id opt = Some k)
                    (case gq_options q of None \<Rightarrow> [] | Some opts \<Rightarrow> opts)) = 1)"

text \<open>
  The judgement of the basic report in the words of the specification: the response
  stored for a question, and an objective question whose stored response is the id in
  its answer key.
\<close>

definition storedResponse :: "(string \<rightharpoonup> string) option \<Rightarrow> TestQuestion \<Rightarrow> string option" where
  "storedResponse userResponses q =
     (case userResponses of None \<Rightarrow> None | Some m \<Rightarrow> m (q_id q))"

text \<open>
  A question whose read of the response gives a value inherited from the prototype: no
  response is stored for it, and its id is the name of a property of \<^verbatim>\<open>Object.prototype\<close>.
\<close>

definition readsInherited :: "(string \<rightharpoonup> string) option \<Rightarrow> TestQuestion \<Rightarrow> bool" where
  "readsInherited userResponses q =
     (userResponses \<noteq> None \<and> storedResponse userResponses q = None \<and>
      q_id q \<in> set objectPrototypeKeys)"

definition answeredCorrectly :: "(string \<rightharpoonup> string) option \<Rightarrow> TestQuestion \<Rightarrow> bool" where
  "answeredCorrectly userResponses q =
     (q_type q = objective \<and>
      (case storedResponse userResponses q of
         None \<Rightarrow> False
       | Some v \<Rightarrow> v \<noteq> [] \<and> q_correctAnswerKey q = Some v))"

section \<open>Example values\<close>

text \<open>Concrete inputs, prompts and clocks on which the theorems below are instantiated.\<close>

definition noOutput :: "('i, 'o) prompt" where
  "noOutput input = Inr None"

definition exampleTestInput :: "int \<Rightarrow> int \<Rightarrow> GenerateTestInput" where
  "exampleTestInput s ob =
     \<lparr>gt_title = ''Algebra'', gt_subject = None, gt_description = None,
      numSubjective = s, numObjective = ob\<rparr>"

definition exampleClock :: "nat \<Rightarrow> nat" where
  "exampleClock index = 1000"

definition capitalOptions :: "TestQuestionOption list" where
  "capitalOptions = [\<lparr>opt_id = ''a'', opt_text = ''Paris''\<rparr>, \<lparr>opt_id = ''b'', opt_text = ''Rome''\<rparr>]"

definition exampleQuestion ::
  "string \<Rightarrow> questionType \<Rightarrow> TestQuestionOption list option \<Rightarrow> string option \<Rightarrow> TestQuestion" where
  "exampleQuestion i t opts k =
     \<lparr>q_id = i, q_type = t, q_questionText = ''What is the capital of France?'',
      q_options = opts, q_correctAnswerKey = k, q_correctAnswerText = Some ''Paris''\<rparr>"

definition exampleAnalysisInput :: AnalyzeTestResultsInput where
  "exampleAnalysisInput =
     \<lparr>testTitle = ''Geography'', testSubject = None, testDescription = None,
      ar_questions =
        [exampleQuestion ''q1'' objective (Some capitalOptions) (Some ''a''),
         exampleQuestion ''q2'' objective (Some capitalOptions) (Some ''a''),
         exampleQuestion ''q3'' subjective None None,
         exampleQuestion ''q4'' subjective None None,
         exampleQuestion ''q5'' objective None (Some ''b''),
         exampleQuestion ''q6'' objective (Some capitalOptions) (Some ''a'')],
      ar_userResponses =
        [''q1'' \<mapsto> ''a'', ''q2'' \<mapsto> ''c'', ''q3'' \<mapsto> ''Because'', ''q5'' \<mapsto> ''b'', ''q6'' \<mapsto> '''']\<rparr>"

definition strayKeyQuestion :: GeneratedQuestion where
  "strayKeyQuestion =
     \<lparr>gq_id = Some ''q1'', gq_type = objective, gq_questionText = ''2 + 2 = ?'',
      gq_options = Some [\<lparr>go_id = Some ''a'', go_text = ''3''\<rparr>, \<lparr>go_id = Some ''b'', go_text = ''4''\<rparr>],
      gq_correctAnswerKey = Some ''c'', gq_correctAnswerText = Some ''4''\<rparr>"

definition strayKeyPrompt :: "(GenerateTestInput, GenerateTestOutput) prompt" where
  "strayKeyPrompt input = Inr (Some \<lparr>gt_questions = Some [strayKeyQuestion]\<rparr>)"

text \<open>
  A question as the schema of the output admits it, whose id and the id of whose second
  option are the empty string.
\<close>

definition blankIdQuestion :: GeneratedQuestion where
  "blankIdQuestion =
     \<lparr>gq_id = Some [], gq_type = objective, gq_questionText = ''2 + 2 = ?'',
      gq_options = Some [\<lparr>go_id = Some ''a'', go_text = ''3''\<rparr>, \<lparr>go_id = Some [], go_text = ''4''\<rparr>],
      gq_correctAnswerKey = Some ''a'', gq_correctAnswerText = Some ''4''\<rparr>"

definition essayQuestion :: GeneratedQuestion where
  "essayQuestion =
     \<lparr>gq_id = Some ''q2'', gq_type = subjective, gq_questionText = ''Why?'',
      gq_options = Some [], gq_correctAnswerKey = Some ''a'', gq_correctAnswerText = None\<rparr>"

definition blankIdPrompt :: "(GenerateTestInput, GenerateTestOutput) prompt" where
  "blankIdPrompt input = Inr (Some \<lparr>gt_questions = Some [blankIdQuestion, essayQuestion]\<rparr>)"

definition laterClock :: "nat \<Rightarrow> nat" where
  "laterClock index = 2000"

definition emptyTest :: TestSet where
  "emptyTest =
     \<lparr>ts_title = ''Geography'', ts_subject = None, ts_description = None,
      ts_questions = [], ts_userResponses = Some Map.empty\<rparr>"

definition capitalsTest :: TestSet where
  "capitalsTest =
     \<lparr>ts_title = ''Geography'', ts_subject = None, ts_description = None,
      ts_questions =
        [exampleQuestion ''q1'' objective (Some capitalOptions) (Some ''a''),
         exampleQuestion ''q2'' objective (Some capitalOptions) (Some ''b'')],
      ts_userResponses = Some [''q1'' \<mapsto> ''a'', ''q2'' \<mapsto> ''b'']\<rparr>"

definition mixedTest :: TestSet where
  "mixedTest =
     \<lparr>ts_title = ''Geography'', ts_subject = None, ts_description = None,
      ts_questions =
        [exampleQuestion ''q1'' objective (Some capitalOptions) (Some ''a''),
         exampleQuestion ''q2'' objective (Some capitalOptions) (Some ''a''),
         exampleQuestion ''q3'' subjective None None],
      ts_userResponses = Some [''q1'' \<mapsto> ''a'', ''q2'' \<mapsto> ''b'', ''q3'' \<mapsto> ''Because'']\<rparr>"

definition overloadedPrompt :: "(ProcessedDataForPrompt, TestAnalysisReport) prompt" where
  "overloadedPrompt input = Inl (Error ''[503 Service Unavailable] The model is overloaded.'')"

definition exampleSession :: "string \<Rightarrow> string \<Rightarrow> string \<Rightarrow> StudySession" where
  "exampleSession d t a =
     \<lparr>ss_date = d, startTime = t, endTime = ''11:59 PM'', ss_subject = ''Algebra'',
      activity = a, isBreak = False\<rparr>"

definition shuffledPlan :: GenerateStudyPlanOutput where
  "shuffledPlan =
     \<lparr>planTitle = Some ''Plan'',
      dailySessions =
        [\<lparr>ds_date = ''2025-03-02'',
          sessions = [exampleSession ''2025-03-02'' ''01:00 PM'' ''Practice'',
                      exampleSession ''2025-03-02'' ''12:30 AM'' ''Read'',
                      exampleSession ''2025-03-02'' ''09:15 AM'' ''Review'']\<rparr>,
         \<lparr>ds_date = ''2025-03-01'',
          sessions = [exampleSession ''2025-03-01'' ''12:00 PM'' ''Lunch notes'',
                      exampleSession ''2025-03-01'' ''11:00 AM'' ''Essay'']\<rparr>],
      summaryNotes = None\<rparr>"

definition shuffledPrompt :: "(StudyPlanPromptInput, GenerateStudyPlanOutput) prompt" where
  "shuffledPrompt input = Inr (Some shuffledPlan)"

definition examplePlanInput :: GenerateStudyPlanInput where
  "examplePlanInput =
     \<lparr>exams = [\<lparr>exam_id = ''e1'', exam_subject = ''Algebra'', exam_date = ''2025-03-10'',
                 exam_type = None\<rparr>],
      weakAreas = None, learningPace = moderate, studyHoursPerWeek = None,
      preferredStudyDays = Some [Saturday, Sunday], sp_notes = None\<rparr>"

text \<open>
  A date parser for the example: the days of March 2025 that the example uses, as the
  milliseconds of their midnight in UTC.
\<close>

definition exampleGetTime :: "string \<Rightarrow> int option" where
  "exampleGetTime s =
     (if s = ''2025-03-01'' then Some 1740787200000
      else if s = ''2025-03-02'' then Some 1740873600000
      else None)"

definition shuffledOncePrompt :: "(StudyPlanPromptInput, GenerateStudyPlanOutput) prompt" where
  "shuffledOncePrompt input =
     (if currentDate input = ''2025-02-28'' then Inr (Some shuffledPlan) else Inr None)"

definition misformattedPlan :: GenerateStudyPlanOutput where
  "misformattedPlan =
     \<lparr>planTitle = Some ''Plan'',
      dailySessions =
        [\<lparr>ds_date = ''2025-03-01'',
          sessions = [exampleSession ''2025-03-01'' ''10:00 AM'' ''Practice'',
                      exampleSession ''2025-03-01'' ''9:00AM'' ''Read'',
                      exampleSession ''2025-03-01'' ''09:00 AM'' ''Review'']\<rparr>],
      summaryNotes = None\<rparr>"

definition misformattedPrompt :: "(StudyPlanPromptInput, GenerateStudyPlanOutput) prompt" where
  "misformattedPrompt input = Inr (Some misformattedPlan)"




definition exampleCardsInput :: GenerateMultipleFlashcardsInput where
  "exampleCardsInput = \<lparr>topic = ''Primes'', numberOfCards = Some 3\<rparr>"


text \<open>
  A request for analysis with no response recorded, whose question ids are names of
  properties that every plain object inherits.
\<close>

definition inheritedIdInput :: AnalyzeTestResultsInput where
  "inheritedIdInput =
     \<lparr>testTitle = ''Geography'', testSubject = None, testDescription = None,
      ar_questions =
        [exampleQuestion ''constructor'' objective (Some capitalOptions) (Some ''a''),
         exampleQuestion ''toString'' subjective None None,
         exampleQuestion ''valueOf'' objective None (Some ''a'')],
      ar_userResponses = Map.empty\<rparr>"


definition essayTest :: TestSet where
  "essayTest =
     \<lparr>ts_title = ''Geography'', ts_subject = None, ts_description = None,
      ts_questions = [exampleQuestion ''q1'' subjective None None],
      ts_userResponses = Some [''q1'' \<mapsto> ''Because'']\<rparr>"

section \<open>Properties\<close>

lemma toString_nonempty: "toString n \<noteq> []"
  by (subst toString.simps) simp

text \<open>
  The schema of the input excludes a total of 0 and puts no upper bound on the total:
  the bound of 20 is the body's alone.
\<close>

lemma GenerateTestInputSchema_total:
  "GenerateTestInputSchema data \<Longrightarrow> 0 < numObjective data + numSubjective data"
  by (auto simp: GenerateTestInputSchema_def)

lemma GenerateTestInputSchema_above_20: "GenerateTestInputSchema (exampleTestInput 11 10)"
  by (simp add: GenerateTestInputSchema_def exampleTestInput_def)

subsection \<open>Input validation of generateTest\<close>

text \<open>
  C1. A request whose two counts sum to 0, and one whose counts sum to more than 20, makes
  \<open>generateTest\<close> fail with the error of its input check, and the list of the calls
  sent to the model is empty: the flow throws before it awaits the prompt.
\<close>

theorem generateTest_rejects_total:
  assumes "numSubjective input + numObjective input = 0 \<or> numSubjective input + numObjective input > 20"
  shows "generateTest now prompt input =
           (Inl (Error (if numSubjective input + numObjective input > 20
                        then ''Cannot generate more than 20 questions in total at once.''
                        else ''Total number of questions must be greater than 0.'')), [])"
  using assms
  by (auto simp: generateTest_def generateTestInternalFlow_def defineFlow_def
      generateTestInternalFlow_body_def add.commute)

theorem generateTest_rejects_total_witness:
  "numSubjective (exampleTestInput 0 0) + numObjective (exampleTestInput 0 0) = 0 \<and>
   generateTest exampleClock noOutput (exampleTestInput 0 0) =
     (Inl (Error ''Total number of questions must be greater than 0.''), []) \<and>
   numSubjective (exampleTestInput 11 10) + numObjective (exampleTestInput 11 10) > 20 \<and>
   generateTest exampleClock noOutput (exampleTestInput 11 10) =
     (Inl (Error ''Cannot generate more than 20 questions in total at once.''), [])"
  using generateTest_rejects_total [of "exampleTestInput 0 0" exampleClock noOutput]
    generateTest_rejects_total [of "exampleTestInput 11 10" exampleClock noOutput]
  by (simp add: exampleTestInput_def)

subsection \<open>A missing output of the model\<close>


lemma defineFlow_error:
  "fst (body input) = Inl e \<Longrightarrow> fst (defineFlow body input) = Inl e"
  by (cases "body input") (simp add: defineFlow_def)

lemma defineFlow_Inr:
  "fst (defineFlow body input) = Inr r \<longleftrightarrow> fst (body input) = Inr (Some r)"
  by (cases "body input") (auto simp: defineFlow_def split: sum.splits option.splits)

lemma defineFlow_calls: "snd (defineFlow body input) = snd (body input)"
  by (cases "body input") (auto simp: defineFlow_def split: sum.splits option.splits)





subsection \<open>The number of flashcards requested\<close>

text \<open>
  C8. \<open>generateMultipleFlashcards\<close> sends one request to the model, the caller's input
  with \<^verbatim>\<open>numberOfCards\<close> replaced: 5 when the caller gave none, and the larger of the
  caller's number and 5 otherwise (so 0, a negative number and every number below 5
  become 5, and a number from 5 on is kept).
\<close>

theorem generateMultipleFlashcards_requests_max:
  "snd (generateMultipleFlashcards prompt input) =
     [input\<lparr>numberOfCards := Some (case numberOfCards input of None \<Rightarrow> 5 | Some n \<Rightarrow> max n 5)\<rparr>]"
  by (auto simp: generateMultipleFlashcards_def generateMultipleFlashcardsFlow_def
      generateMultipleFlashcardsFlow_body_def defineFlow_calls
      effectiveNumCards_def split: sum.splits option.splits)

subsection \<open>Pre-processing of the analysis: the text of the user's answer\<close>

lemma getProperty_own: "obj name = Some s \<Longrightarrow> getProperty obj name = Str s"
  by (simp add: getProperty_def)

lemma getProperty_undefined:
  "obj name = None \<Longrightarrow> name \<notin> set objectPrototypeKeys \<Longrightarrow> getProperty obj name = Undefined"
  by (simp add: getProperty_def)

lemma getProperty_inherited:
  "obj name = None \<Longrightarrow> name \<in> set objectPrototypeKeys \<Longrightarrow> getProperty obj name = Inherited name"
  by (simp add: getProperty_def)

lemma length_processedQuestions:
  "length (processedQuestions input) = length (ar_questions input)"
  by (simp add: processedQuestions_def)

lemma processedQuestions_nth:
  assumes "i < length (ar_questions input)"
  shows "userAnswerTextForPrompt (processedQuestions input ! i) =
           resolveUserAnswer (ar_userResponses input) (ar_questions input ! i)"
    and "questionDisplayNumber (processedQuestions input ! i) = i + 1"
    and "TestQuestion.truncate (processedQuestions input ! i) = ar_questions input ! i"
  using assms
  by (simp_all add: processedQuestions_def processQuestion_def nth_enumerate_eq
      TestQuestion.defs ProcessedQuestionForPrompt.defs)

lemma find_id_Some:
  "find (\<lambda>opt. opt_id opt = raw) opts = Some x \<Longrightarrow> x \<in> set opts \<and> opt_id x = raw"
  by (induction opts) (auto split: if_splits)

lemma find_id_None:
  "find (\<lambda>opt. opt_id opt = raw) opts = None \<longleftrightarrow> raw \<notin> set (map opt_id opts)"
  by (induction opts) auto

text \<open>
  The answer text of a question for which a response is stored, and of one for which
  none is stored and whose id is not the name of an inherited property: the empty
  response and the missing one give \<^verbatim>\<open>No answer provided\<close>; a non-empty response to an
  objective question with options gives the text of the first option with that id, or
  \<^verbatim>\<open>Invalid option selected by user\<close>; any other non-empty response is the text.
\<close>

lemma resolveUserAnswer_missing:
  assumes "userResponses (q_id q) = None" "q_id q \<notin> set objectPrototypeKeys"
  shows "resolveUserAnswer userResponses q = Str ''No answer provided''"
  using assms by (simp add: resolveUserAnswer_def getProperty_def truthy_value_def)

lemma resolveUserAnswer_empty:
  assumes "userResponses (q_id q) = Some []"
  shows "resolveUserAnswer userResponses q = Str ''No answer provided''"
  using assms by (simp add: resolveUserAnswer_def getProperty_def truthy_value_def)

lemma resolveUserAnswer_option:
  assumes "userResponses (q_id q) = Some raw" "raw \<noteq> []" "q_type q = objective"
    "q_options q = Some opts"
  shows "resolveUserAnswer userResponses q =
           (case find (\<lambda>opt. opt_id opt = raw) opts of
              Some opt \<Rightarrow> Str (opt_text opt)
            | None \<Rightarrow> Str ''Invalid option selected by user'')"
  using assms by (simp add: resolveUserAnswer_def getProperty_def truthy_value_def)

lemma resolveUserAnswer_raw:
  assumes "userResponses (q_id q) = Some raw" "raw \<noteq> []" "q_type q = subjective \<or> q_options q = None"
  shows "resolveUserAnswer userResponses q = Str raw"
  using assms
  by (auto simp: resolveUserAnswer_def getProperty_def truthy_value_def Let_def
      split: questionType.splits option.splits)

text \<open>
  The answer text of a question for which no response is stored and whose id is the
  name of an inherited property: the read gives the inherited value, which is truthy
  and the id of no option.
\<close>

lemma resolveUserAnswer_inherited:
  assumes "userResponses (q_id q) = None" "q_id q \<in> set objectPrototypeKeys"
  shows "resolveUserAnswer userResponses q =
           (if q_type q = objective \<and> q_options q \<noteq> None
            then Str ''Invalid option selected by user'' else Inherited (q_id q))"
proof -
  have "find (\<lambda>opt. Str (opt_id opt) = Inherited (q_id q)) opts = None"
    for opts :: "TestQuestionOption list"
    by (simp add: find_None_iff)
  then show ?thesis
    using assms
    by (auto simp: resolveUserAnswer_def getProperty_def truthy_value_def Let_def
        split: questionType.splits option.splits)
qed

text \<open>
  C5. The claim has the answer text be \<^verbatim>\<open>No answer provided\<close> whenever no response is
  recorded for the question. The code reads the response with \<^verbatim>\<open>userResponses[q.id]\<close>,
  which also finds what the object inherits. In the request \<open>inheritedIdInput\<close> no
  response is recorded at all. Its first question is objective, has options and the id
  \<^verbatim>\<open>constructor\<close>: its answer text is \<^verbatim>\<open>Invalid option selected by user\<close>. Its second
  question is subjective and has the id \<^verbatim>\<open>toString\<close>: its answer text is no string, but
  the function inherited under that name.
\<close>

theorem processedQuestions_inherited_answer:
  "ar_userResponses inheritedIdInput ''constructor'' = None \<and>
   ar_userResponses inheritedIdInput ''toString'' = None \<and>
   map q_id (take 2 (ar_questions inheritedIdInput)) = [''constructor'', ''toString''] \<and>
   map userAnswerTextForPrompt (take 2 (processedQuestions inheritedIdInput)) =
     [Str ''Invalid option selected by user'', Inherited ''toString'']"
  by (simp add: inheritedIdInput_def exampleQuestion_def capitalOptions_def
      processedQuestions_def processQuestion_def enumerate_eq_zip upt_rec
      resolveUserAnswer_def getProperty_def objectPrototypeKeys_def truthy_value_def
      TestQuestion.defs ProcessedQuestionForPrompt.defs)

text \<open>
  C10. The claim has an objective question without options resolve a missing response
  to \<^verbatim>\<open>No answer provided\<close>, as it does an empty one. The third question of
  \<open>inheritedIdInput\<close> is objective, has no options and the id \<^verbatim>\<open>valueOf\<close>, and no response
  is recorded for it: the options being absent, its answer text is what the read
  gave, the function inherited under that name. (The sixth question of
  \<open>exampleAnalysisInput\<close>, whose recorded response is the empty string, does get
  \<^verbatim>\<open>No answer provided\<close>.)
\<close>

theorem processedQuestions_inherited_without_options:
  "q_type (ar_questions inheritedIdInput ! 2) = objective \<and>
   q_options (ar_questions inheritedIdInput ! 2) = None \<and>
   q_id (ar_questions inheritedIdInput ! 2) = ''valueOf'' \<and>
   ar_userResponses inheritedIdInput ''valueOf'' = None \<and>
   userAnswerTextForPrompt (processedQuestions inheritedIdInput ! 2) = Inherited ''valueOf'' \<and>
   ar_userResponses exampleAnalysisInput (q_id (ar_questions exampleAnalysisInput ! 5)) = Some [] \<and>
   userAnswerTextForPrompt (processedQuestions exampleAnalysisInput ! 5) = Str ''No answer provided''"
  by (simp add: inheritedIdInput_def exampleAnalysisInput_def exampleQuestion_def capitalOptions_def
      processedQuestions_def processQuestion_def enumerate_eq_zip upt_rec
      resolveUserAnswer_def getProperty_def objectPrototypeKeys_def truthy_value_def
      TestQuestion.defs ProcessedQuestionForPrompt.defs)

text \<open>
  Apart from such ids the processed questions are as the two claims have them. The
  processed question at position \<open>i\<close> keeps the fields of the question and has the
  display number \<open>i + 1\<close>; its answer text is the one of the lemmas above.
\<close>

lemma processedQuestions_resolved:
  assumes "i < length (ar_questions input)"
  shows "length (processedQuestions input) = length (ar_questions input) \<and>
         questionDisplayNumber (processedQuestions input ! i) = i + 1 \<and>
         TestQuestion.truncate (processedQuestions input ! i) = ar_questions input ! i \<and>
         ((ar_userResponses input (q_id (ar_questions input ! i)) = None \<and>
           q_id (ar_questions input ! i) \<notin> set objectPrototypeKeys) \<or>
          ar_userResponses input (q_id (ar_questions input ! i)) = Some [] \<longrightarrow>
            userAnswerTextForPrompt (processedQuestions input ! i) = Str ''No answer provided'') \<and>
         (\<forall>raw opts.
            ar_userResponses input (q_id (ar_questions input ! i)) = Some raw \<and> raw \<noteq> [] \<and>
            q_type (ar_questions input ! i) = objective \<and>
            q_options (ar_questions input ! i) = Some opts \<longrightarrow>
              (raw \<in> set (map opt_id opts) \<longrightarrow>
                 (\<exists>opt \<in> set opts. opt_id opt = raw \<and>
                    find (\<lambda>opt. opt_id opt = raw) opts = Some opt \<and>
                    userAnswerTextForPrompt (processedQuestions input ! i) = Str (opt_text opt))) \<and>
              (raw \<notin> set (map opt_id opts) \<longrightarrow>
                 userAnswerTextForPrompt (processedQuestions input ! i) =
                   Str ''Invalid option selected by user'')) \<and>
         (\<forall>raw.
            ar_userResponses input (q_id (ar_questions input ! i)) = Some raw \<and> raw \<noteq> [] \<and>
            (q_type (ar_questions input ! i) = subjective \<or>
             q_options (ar_questions input ! i) = None) \<longrightarrow>
              userAnswerTextForPrompt (processedQuestions input ! i) = Str raw)"
proof -
  let ?q = "ar_questions input ! i"
  let ?p = "processedQuestions input ! i"
  have resolved: "userAnswerTextForPrompt ?p = resolveUserAnswer (ar_userResponses input) ?q"
    using assms by (rule processedQuestions_nth)
  have none: "(ar_userResponses input (q_id ?q) = None \<and> q_id ?q \<notin> set objectPrototypeKeys) \<or>
      ar_userResponses input (q_id ?q) = Some [] \<longrightarrow>
      userAnswerTextForPrompt ?p = Str ''No answer provided''"
    using resolveUserAnswer_missing [of "ar_userResponses input" ?q]
      resolveUserAnswer_empty [of "ar_userResponses input" ?q]
    by (auto simp: resolved)
  have inv: "userAnswerTextForPrompt ?p = Str ''Invalid option selected by user''"
    if "ar_userResponses input (q_id ?q) = Some raw" "raw \<noteq> []" "q_type ?q = objective"
      "q_options ?q = Some opts" "raw \<notin> set (map opt_id opts)"
    for raw opts
  proof -
    have "find (\<lambda>opt. opt_id opt = raw) opts = None"
      using that(5) by (simp add: find_id_None)
    then show ?thesis
      using resolveUserAnswer_option [of "ar_userResponses input" ?q raw opts] that
      by (simp add: resolved)
  qed
  have found: "\<exists>opt \<in> set opts. opt_id opt = raw \<and> find (\<lambda>opt. opt_id opt = raw) opts = Some opt \<and>
      userAnswerTextForPrompt ?p = Str (opt_text opt)"
    if "ar_userResponses input (q_id ?q) = Some raw" "raw \<noteq> []" "q_type ?q = objective"
      "q_options ?q = Some opts" "raw \<in> set (map opt_id opts)"
    for raw opts
  proof -
    from that(5) obtain opt where f: "find (\<lambda>opt. opt_id opt = raw) opts = Some opt"
      using find_id_None [of raw opts] by (cases "find (\<lambda>opt. opt_id opt = raw) opts") auto
    then have "opt \<in> set opts \<and> opt_id opt = raw" by (rule find_id_Some)
    moreover have "userAnswerTextForPrompt ?p = Str (opt_text opt)"
      using resolveUserAnswer_option [of "ar_userResponses input" ?q raw opts] that f
      by (simp add: resolved)
    ultimately show ?thesis using f by blast
  qed
  have subj: "userAnswerTextForPrompt ?p = Str raw"
    if "ar_userResponses input (q_id ?q) = Some raw" "raw \<noteq> []"
      "q_type ?q = subjective \<or> q_options ?q = None"
    for raw
    using resolveUserAnswer_raw [of "ar_userResponses input" ?q raw] that
    by (simp add: resolved)
  show ?thesis
    using assms processedQuestions_nth(2,3) [OF assms] none found inv subj
    by (simp add: length_processedQuestions)
qed

lemma processedQuestions_examples:
  "map userAnswerTextForPrompt (processedQuestions exampleAnalysisInput) =
     [Str ''Paris'', Str ''Invalid option selected by user'', Str ''Because'',
      Str ''No answer provided'', Str ''b'', Str ''No answer provided''] \<and>
   map questionDisplayNumber (processedQuestions exampleAnalysisInput) = [1, 2, 3, 4, 5, 6]"
  by (simp add: exampleAnalysisInput_def exampleQuestion_def capitalOptions_def
      processedQuestions_def processQuestion_def enumerate_eq_zip upt_rec
      resolveUserAnswer_def getProperty_def objectPrototypeKeys_def truthy_value_def
      TestQuestion.defs ProcessedQuestionForPrompt.defs)

subsection \<open>The ids of a generated test\<close>

lemma or_else_truthy: "d \<noteq> [] \<Longrightarrow> truthy (Some (or_else s d))"
  by (simp add: truthy_def or_else_def split: option.splits)

lemma or_else_kept: "truthy s \<Longrightarrow> Some (or_else s d) = s"
  by (simp add: truthy_def or_else_def split: option.splits)

lemma or_else_default: "\<not> truthy s \<Longrightarrow> or_else s d = d"
  by (simp add: truthy_def or_else_def split: option.splits)

lemma optionWithId_truthy: "truthy (go_id (optionWithId qid (optIndex, opt)))"
  by (simp add: optionWithId_def or_else_truthy)

lemma optionWithId_text: "go_text (optionWithId qid (optIndex, opt)) = go_text opt"
  by (simp add: optionWithId_def)

lemma optionWithId_kept:
  "truthy (go_id opt) \<Longrightarrow> go_id (optionWithId qid (optIndex, opt)) = go_id opt"
  by (simp add: optionWithId_def or_else_kept)

lemma optionWithId_new:
  "\<not> truthy (go_id opt) \<Longrightarrow>
   go_id (optionWithId qid (optIndex, opt)) = Some (qid @ ''_opt'' @ toString optIndex)"
  by (simp add: optionWithId_def or_else_default)

lemma length_backfillIds: "length (backfillIds now qs) = length qs"
  by (simp add: backfillIds_def)

lemma backfillIds_nth:
  "i < length qs \<Longrightarrow> backfillIds now qs ! i = questionWithIds now (i, qs ! i)"
  by (simp add: backfillIds_def nth_enumerate_eq)

lemma questionWithIds_id: "truthy (gq_id (questionWithIds now (i, q)))"
  by (simp add: questionWithIds_def Let_def or_else_truthy)

lemma questionWithIds_id_kept:
  "truthy (gq_id q) \<Longrightarrow> gq_id (questionWithIds now (i, q)) = gq_id q"
  by (simp add: questionWithIds_def Let_def or_else_kept)

lemma questionWithIds_id_new:
  "\<not> truthy (gq_id q) \<Longrightarrow>
   gq_id (questionWithIds now (i, q)) = Some (''q_'' @ toString (now i) @ ''_'' @ toString i)"
  by (simp add: questionWithIds_def Let_def or_else_default)

lemma questionWithIds_kept:
  "gq_type (questionWithIds now (i, q)) = gq_type q"
  "gq_questionText (questionWithIds now (i, q)) = gq_questionText q"
  "gq_correctAnswerText (questionWithIds now (i, q)) = gq_correctAnswerText q"
  by (simp_all add: questionWithIds_def Let_def)

text \<open>
  The options of an objective question of the output: as many as the model gave, each
  with the model's text and the model's id, or, for an id that is missing or empty, the
  id of the question followed by \<^verbatim>\<open>_opt\<close> and the position of the option.
\<close>

lemma questionWithIds_objective:
  assumes "gq_type q = objective" "gq_id (questionWithIds now (i, q)) = Some qid"
  shows "\<exists>opts. gq_options (questionWithIds now (i, q)) = Some opts \<and>
           (\<forall>opt \<in> set opts. truthy (go_id opt)) \<and>
           (gq_options q = None \<longrightarrow> opts = []) \<and>
           (\<forall>os. gq_options q = Some os \<longrightarrow>
              length opts = length os \<and>
              (\<forall>j < length os.
                 go_text (opts ! j) = go_text (os ! j) \<and>
                 (truthy (go_id (os ! j)) \<longrightarrow> go_id (opts ! j) = go_id (os ! j)) \<and>
                 (\<not> truthy (go_id (os ! j)) \<longrightarrow>
                    go_id (opts ! j) = Some (qid @ ''_opt'' @ toString j)))) \<and>
           gq_correctAnswerKey (questionWithIds now (i, q)) = gq_correctAnswerKey q"
proof (cases "gq_options q")
  case None
  with assms show ?thesis by (simp add: questionWithIds_def Let_def)
next
  case (Some os)
  let ?opts = "map (optionWithId qid) (enumerate 0 os)"
  from assms(2) have qid: "or_else (gq_id q) (''q_'' @ toString (now i) @ ''_'' @ toString i) = qid"
    by (simp add: questionWithIds_def Let_def)
  have opts: "gq_options (questionWithIds now (i, q)) = Some ?opts"
    using assms(1) Some qid by (simp add: questionWithIds_def Let_def)
  have key: "gq_correctAnswerKey (questionWithIds now (i, q)) = gq_correctAnswerKey q"
    using assms(1) by (simp add: questionWithIds_def Let_def)
  have all: "\<forall>opt \<in> set ?opts. truthy (go_id opt)"
    by (auto simp: optionWithId_truthy)
  have nth: "?opts ! j = optionWithId qid (j, os ! j)" if "j < length os" for j
    using that by (simp add: nth_enumerate_eq)
  have each: "go_text (?opts ! j) = go_text (os ! j) \<and>
      (truthy (go_id (os ! j)) \<longrightarrow> go_id (?opts ! j) = go_id (os ! j)) \<and>
      (\<not> truthy (go_id (os ! j)) \<longrightarrow> go_id (?opts ! j) = Some (qid @ ''_opt'' @ toString j))"
    if "j < length os" for j
    unfolding nth [OF that]
    by (simp add: optionWithId_text optionWithId_kept optionWithId_new)
  show ?thesis
    using opts key all each Some by simp
qed

lemma questionWithIds_subjective:
  "gq_type q = subjective \<Longrightarrow>
   gq_options (questionWithIds now (i, q)) = None \<and>
   gq_correctAnswerKey (questionWithIds now (i, q)) = None"
  by (simp add: questionWithIds_def Let_def)

lemma generateTest_Inr:
  assumes "fst (generateTest now prompt input) = Inr out"
  shows "\<exists>output qs0. prompt input = Inr (Some output) \<and> gt_questions output = Some qs0 \<and>
           out = output\<lparr>gt_questions := Some (backfillIds now qs0)\<rparr>"
  using assms
  by (auto simp: generateTest_def generateTestInternalFlow_def defineFlow_def
      generateTestInternalFlow_body_def
      split: if_splits sum.splits option.splits)

text \<open>
  C3, as the code has it. When \<open>generateTest\<close> returns a test, the model returned a list
  of questions and the test has one question for each of them, of the same type and
  with the same text and answer text. Every question has a non-empty id: the model's id
  when that is non-empty, and otherwise one synthesized from the reading of the clock
  and the position of the question. An objective question has a list of options: the
  empty list when the model gave none, and otherwise one option for each option of the
  model, with the model's text; every option has a non-empty id, the model's id when
  that is non-empty and otherwise one synthesized from the id of the question and the
  position of the option. The answer key of an objective question is the model's key,
  unchanged: the flow does not compare the key with the ids of the options. A
  subjective question has neither options nor an answer key.
\<close>

theorem generateTest_output_ids:
  assumes "fst (generateTest now prompt input) = Inr out"
  shows "\<exists>output qs0 qs.
           prompt input = Inr (Some output) \<and> gt_questions output = Some qs0 \<and>
           gt_questions out = Some qs \<and> length qs = length qs0 \<and>
           (\<forall>i < length qs. \<exists>qid.
              gq_id (qs ! i) = Some qid \<and> qid \<noteq> [] \<and>
              (truthy (gq_id (qs0 ! i)) \<longrightarrow> gq_id (qs0 ! i) = Some qid) \<and>
              (\<not> truthy (gq_id (qs0 ! i)) \<longrightarrow>
                 qid = ''q_'' @ toString (now i) @ ''_'' @ toString i) \<and>
              gq_type (qs ! i) = gq_type (qs0 ! i) \<and>
              gq_questionText (qs ! i) = gq_questionText (qs0 ! i) \<and>
              gq_correctAnswerText (qs ! i) = gq_correctAnswerText (qs0 ! i) \<and>
              (gq_type (qs ! i) = objective \<longrightarrow>
                 (\<exists>opts. gq_options (qs ! i) = Some opts \<and>
                    (\<forall>opt \<in> set opts. truthy (go_id opt)) \<and>
                    (gq_options (qs0 ! i) = None \<longrightarrow> opts = []) \<and>
                    (\<forall>os. gq_options (qs0 ! i) = Some os \<longrightarrow>
                       length opts = length os \<and>
                       (\<forall>j < length os.
                          go_text (opts ! j) = go_text (os ! j) \<and>
                          (truthy (go_id (os ! j)) \<longrightarrow> go_id (opts ! j) = go_id (os ! j)) \<and>
                          (\<not> truthy (go_id (os ! j)) \<longrightarrow>
                             go_id (opts ! j) = Some (qid @ ''_opt'' @ toString j)))) \<and>
                    gq_correctAnswerKey (qs ! i) = gq_correctAnswerKey (qs0 ! i))) \<and>
              (gq_type (qs ! i) = subjective \<longrightarrow>
                 gq_options (qs ! i) = None \<and> gq_correctAnswerKey (qs ! i) = None))"
proof -
  from generateTest_Inr [OF assms] obtain modelOut qs0 where
    p: "prompt input = Inr (Some modelOut)" and q0: "gt_questions modelOut = Some qs0" and
    out: "out = modelOut\<lparr>gt_questions := Some (backfillIds now qs0)\<rparr>"
    by blast
  let ?qs = "backfillIds now qs0"
  have each: "\<exists>qid.
      gq_id (?qs ! i) = Some qid \<and> qid \<noteq> [] \<and>
      (truthy (gq_id (qs0 ! i)) \<longrightarrow> gq_id (qs0 ! i) = Some qid) \<and>
      (\<not> truthy (gq_id (qs0 ! i)) \<longrightarrow>
         qid = ''q_'' @ toString (now i) @ ''_'' @ toString i) \<and>
      gq_type (?qs ! i) = gq_type (qs0 ! i) \<and>
      gq_questionText (?qs ! i) = gq_questionText (qs0 ! i) \<and>
      gq_correctAnswerText (?qs ! i) = gq_correctAnswerText (qs0 ! i) \<and>
      (gq_type (?qs ! i) = objective \<longrightarrow>
         (\<exists>opts. gq_options (?qs ! i) = Some opts \<and>
            (\<forall>opt \<in> set opts. truthy (go_id opt)) \<and>
            (gq_options (qs0 ! i) = None \<longrightarrow> opts = []) \<and>
            (\<forall>os. gq_options (qs0 ! i) = Some os \<longrightarrow>
               length opts = length os \<and>
               (\<forall>j < length os.
                  go_text (opts ! j) = go_text (os ! j) \<and>
                  (truthy (go_id (os ! j)) \<longrightarrow> go_id (opts ! j) = go_id (os ! j)) \<and>
                  (\<not> truthy (go_id (os ! j)) \<longrightarrow>
                     go_id (opts ! j) = Some (qid @ ''_opt'' @ toString j)))) \<and>
            gq_correctAnswerKey (?qs ! i) = gq_correctAnswerKey (qs0 ! i))) \<and>
      (gq_type (?qs ! i) = subjective \<longrightarrow>
         gq_options (?qs ! i) = None \<and> gq_correctAnswerKey (?qs ! i) = None)"
    if "i < length ?qs" for i
  proof -
    from that have i: "i < length qs0" by (simp add: length_backfillIds)
    let ?q = "questionWithIds now (i, qs0 ! i)"
    from questionWithIds_id [of now i "qs0 ! i"] obtain qid where
      qid: "gq_id ?q = Some qid" "qid \<noteq> []"
      by (cases "gq_id ?q") (auto simp: truthy_def)
    have kept: "truthy (gq_id (qs0 ! i)) \<longrightarrow> gq_id (qs0 ! i) = Some qid"
      using questionWithIds_id_kept [of "qs0 ! i" now i] qid(1) by simp
    have new: "\<not> truthy (gq_id (qs0 ! i)) \<longrightarrow> qid = ''q_'' @ toString (now i) @ ''_'' @ toString i"
      using questionWithIds_id_new [of "qs0 ! i" now i] qid(1) by simp
    have obj: "gq_type ?q = objective \<longrightarrow>
         (\<exists>opts. gq_options ?q = Some opts \<and>
            (\<forall>opt \<in> set opts. truthy (go_id opt)) \<and>
            (gq_options (qs0 ! i) = None \<longrightarrow> opts = []) \<and>
            (\<forall>os. gq_options (qs0 ! i) = Some os \<longrightarrow>
               length opts = length os \<and>
               (\<forall>j < length os.
                  go_text (opts ! j) = go_text (os ! j) \<and>
                  (truthy (go_id (os ! j)) \<longrightarrow> go_id (opts ! j) = go_id (os ! j)) \<and>
                  (\<not> truthy (go_id (os ! j)) \<longrightarrow>
                     go_id (opts ! j) = Some (qid @ ''_opt'' @ toString j)))) \<and>
            gq_correctAnswerKey ?q = gq_correctAnswerKey (qs0 ! i))"
      using questionWithIds_objective [of "qs0 ! i" now i qid] qid(1)
      by (simp add: questionWithIds_kept)
    have subj: "gq_type ?q = subjective \<longrightarrow>
         gq_options ?q = None \<and> gq_correctAnswerKey ?q = None"
      using questionWithIds_subjective [of "qs0 ! i" now i]
      by (simp add: questionWithIds_kept)
    show ?thesis
      unfolding backfillIds_nth [OF i]
      using qid kept new obj subj
      by (intro exI [of _ qid]) (simp add: questionWithIds_kept)
  qed
  have "gt_questions out = Some ?qs" by (simp add: out)
  with p q0 each show ?thesis
    by (intro exI [of _ modelOut] exI [of _ qs0] exI [of _ ?qs]) (simp add: length_backfillIds)
qed

theorem generateTest_output_ids_witness:
  "fst (generateTest exampleClock blankIdPrompt (exampleTestInput 1 1)) =
     Inr \<lparr>gt_questions = Some
       [\<lparr>gq_id = Some ''q_1000_0'', gq_type = objective, gq_questionText = ''2 + 2 = ?'',
         gq_options = Some [\<lparr>go_id = Some ''a'', go_text = ''3''\<rparr>,
                            \<lparr>go_id = Some ''q_1000_0_opt1'', go_text = ''4''\<rparr>],
         gq_correctAnswerKey = Some ''a'', gq_correctAnswerText = Some ''4''\<rparr>,
        \<lparr>gq_id = Some ''q2'', gq_type = subjective, gq_questionText = ''Why?'',
         gq_options = None, gq_correctAnswerKey = None, gq_correctAnswerText = None\<rparr>]\<rparr>"
  using generateTest_output_ids [of exampleClock blankIdPrompt "exampleTestInput 1 1"]
  by (simp add: generateTest_def generateTestInternalFlow_def defineFlow_def
      generateTestInternalFlow_body_def blankIdPrompt_def
      exampleTestInput_def backfillIds_def questionWithIds_def optionWithId_def or_else_def
      enumerate_eq_zip upt_rec blankIdQuestion_def essayQuestion_def exampleClock_def
      toString.simps digit_char_def)

text \<open>
  The model may return an objective question whose answer key is the id of none of its
  options; the flow returns the question as it is.
\<close>

lemma strayKey_eval:
  "generateTest exampleClock strayKeyPrompt (exampleTestInput 0 1) =
     (Inr \<lparr>gt_questions = Some [strayKeyQuestion]\<rparr>, [exampleTestInput 0 1])"
  by (simp add: generateTest_def generateTestInternalFlow_def defineFlow_def
      generateTestInternalFlow_body_def strayKeyPrompt_def
      exampleTestInput_def backfillIds_def questionWithIds_def optionWithId_def or_else_def
      enumerate_eq_zip upt_rec strayKeyQuestion_def)

theorem generateTest_key_counterexample:
  "fst (generateTest exampleClock strayKeyPrompt (exampleTestInput 0 1)) =
     Inr \<lparr>gt_questions = Some [strayKeyQuestion]\<rparr> \<and>
   gq_type strayKeyQuestion = objective \<and>
   gq_correctAnswerKey strayKeyQuestion = Some ''c'' \<and>
   \<not> keyNamesOneOption strayKeyQuestion"
  by (simp add: strayKey_eval) (simp add: strayKeyQuestion_def keyNamesOneOption_def)

subsection \<open>The basic report\<close>

lemma toDouble_1: "toDouble 1 = 1"
  by (simp add: toDouble_def exponent_def roundHalfEven_def bitLength.simps power_int_def
      power_divide)

lemma toDouble_100: "toDouble 100 = 100"
  by (simp add: toDouble_def exponent_def roundHalfEven_def bitLength.simps power_int_def
      power_divide)

text \<open>
  One correct answer out of two has the score 50. One out of three has the double that is
  printed as \<^verbatim>\<open>33.33333333333333\<close>, which is below the rational \<open>100 / 3\<close>.
\<close>

lemma toDouble_examples:
  "toDouble (toDouble (1 / 2) * 100) = 50"
  "toDouble (toDouble (1 / 3) * 100) = 2345624805922133 / 70368744177664"
  "toDouble (toDouble (1 / 3) * 100) < 100 / 3"
  by code_simp+

text \<open>
  The callback throws for a subjective question whose read gives an inherited value, and
  for no other question.
\<close>

lemma basicAnalysis_throws:
  assumes "q_type q = subjective" "readsInherited r q"
  shows "basicAnalysis r q counters = Inl (Error ''userAnswerValue?.trim is not a function'')"
  using assms
  by (cases counters)
    (auto simp: basicAnalysis_def Let_def readsInherited_def storedResponse_def getProperty_def
      split: option.splits)

lemma basicAnalysis_returns:
  assumes "q_type q = objective \<or> \<not> readsInherited r q"
  shows "\<exists>res. basicAnalysis r q counters = Inr res"
  using assms
  by (cases counters; cases "q_type q")
    (auto simp: basicAnalysis_def Let_def readsInherited_def storedResponse_def getProperty_def
      split: option.splits jsvalue.splits)

lemma basicAnalysis_Inl:
  "basicAnalysis r q counters = Inl e \<Longrightarrow> e = Error ''userAnswerValue?.trim is not a function''"
  by (cases counters)
    (auto simp: basicAnalysis_def Let_def split: if_splits jsvalue.splits)

text \<open>
  When the callback returns, its entry names the question, is correct exactly for an
  objective question whose stored response is non-empty and is its answer key, and the
  counters count the correct objective questions and the objective questions.
\<close>

lemma keyMatches_answeredCorrectly:
  "q_type q = objective \<Longrightarrow>
   (truthy_value (case r of None \<Rightarrow> Undefined | Some m \<Rightarrow> getProperty m (q_id q)) \<and>
    (case q_correctAnswerKey q of
       None \<Rightarrow> False
     | Some k \<Rightarrow> (case r of None \<Rightarrow> Undefined | Some m \<Rightarrow> getProperty m (q_id q)) = Str k)) =
   answeredCorrectly r q"
  by (auto simp: answeredCorrectly_def storedResponse_def getProperty_def truthy_value_def
      split: option.splits)

lemma basicAnalysis_Inr:
  assumes "basicAnalysis r q (c, t) = Inr (a, c', t')"
  shows "c' = (if answeredCorrectly r q then c + 1 else c)"
    and "t' = (if q_type q = objective then t + 1 else t)"
    and "isCorrect a = answeredCorrectly r q"
    and "questionId a = q_id q"
    and "qa_questionText a = q_questionText q"
    and "feedback a = ''AI-powered feedback is temporarily unavailable for this question.''"
    and "suggestedScoreOutOfTen a = None"
proof -
  have "c' = (if answeredCorrectly r q then c + 1 else c) \<and>
      t' = (if q_type q = objective then t + 1 else t) \<and>
      isCorrect a = answeredCorrectly r q \<and> questionId a = q_id q \<and>
      qa_questionText a = q_questionText q \<and>
      feedback a = ''AI-powered feedback is temporarily unavailable for this question.'' \<and>
      suggestedScoreOutOfTen a = None"
  proof (cases "q_type q")
    case objective
    with assms keyMatches_answeredCorrectly [OF objective, of r] show ?thesis
      by (auto simp: basicAnalysis_def Let_def basicEntry_def)
  next
    case subjective
    then have "\<not> answeredCorrectly r q" by (simp add: answeredCorrectly_def)
    with assms subjective show ?thesis
      by (auto simp: basicAnalysis_def Let_def basicEntry_def split: jsvalue.splits)
  qed
  then show "c' = (if answeredCorrectly r q then c + 1 else c)"
    and "t' = (if q_type q = objective then t + 1 else t)"
    and "isCorrect a = answeredCorrectly r q"
    and "questionId a = q_id q"
    and "qa_questionText a = q_questionText q"
    and "feedback a = ''AI-powered feedback is temporarily unavailable for this question.''"
    and "suggestedScoreOutOfTen a = None"
    by simp_all
qed

lemma basicAnalyses_Inl:
  "basicAnalyses r qs counters = Inl e \<Longrightarrow> e = Error ''userAnswerValue?.trim is not a function''"
proof (induction qs arbitrary: counters)
  case Nil
  then show ?case by simp
next
  case (Cons q qs)
  then show ?case
    by (auto dest: basicAnalysis_Inl split: sum.splits prod.splits)
qed

lemma basicAnalyses_returns:
  assumes "\<forall>q \<in> set qs. q_type q = objective \<or> \<not> readsInherited r q"
  shows "\<exists>res. basicAnalyses r qs counters = Inr res"
  using assms
proof (induction qs arbitrary: counters)
  case Nil
  then show ?case by simp
next
  case (Cons q qs)
  from Cons.prems obtain a cs where step: "basicAnalysis r q counters = Inr (a, cs)"
    using basicAnalysis_returns [of q r counters] by auto
  from Cons.prems Cons.IH [of cs] obtain rs fin where "basicAnalyses r qs cs = Inr (rs, fin)"
    by auto
  with step show ?case by simp
qed

lemma basicAnalyses_throws:
  assumes "\<exists>q \<in> set qs. q_type q = subjective \<and> readsInherited r q"
  shows "basicAnalyses r qs counters = Inl (Error ''userAnswerValue?.trim is not a function'')"
  using assms
proof (induction qs arbitrary: counters)
  case Nil
  then show ?case by simp
next
  case (Cons q qs)
  show ?case
  proof (cases "basicAnalysis r q counters")
    case (Inl e)
    with basicAnalysis_Inl [OF Inl] show ?thesis by simp
  next
    case (Inr res)
    obtain a cs where res: "res = (a, cs)" by (cases res)
    from Inr have "\<not> (q_type q = subjective \<and> readsInherited r q)"
      using basicAnalysis_throws [of q r counters] by auto
    with Cons.prems have "\<exists>q \<in> set qs. q_type q = subjective \<and> readsInherited r q" by auto
    from Cons.IH [OF this, of cs] Inr res show ?thesis by simp
  qed
qed

lemma basicAnalyses_Inr:
  assumes "basicAnalyses r qs (c, t) = Inr (entries, c', t')"
  shows "length entries = length qs \<and>
         c' = c + length (filter (answeredCorrectly r) qs) \<and>
         t' = t + length (filter (\<lambda>q. q_type q = objective) qs) \<and>
         (\<forall>i < length qs.
            questionId (entries ! i) = q_id (qs ! i) \<and>
            qa_questionText (entries ! i) = q_questionText (qs ! i) \<and>
            isCorrect (entries ! i) = answeredCorrectly r (qs ! i) \<and>
            feedback (entries ! i) =
              ''AI-powered feedback is temporarily unavailable for this question.'' \<and>
            suggestedScoreOutOfTen (entries ! i) = None)"
  using assms
proof (induction qs arbitrary: entries c t)
  case Nil
  then show ?case by simp
next
  case (Cons q qs)
  from Cons.prems obtain a c1 t1 rs where
    step: "basicAnalysis r q (c, t) = Inr (a, c1, t1)" and
    rest: "basicAnalyses r qs (c1, t1) = Inr (rs, c', t')" and
    entries: "entries = a # rs"
    by (auto split: sum.splits prod.splits)
  note head = basicAnalysis_Inr [OF step]
  note tail = Cons.IH [OF rest]
  have each: "questionId (entries ! i) = q_id ((q # qs) ! i) \<and>
      qa_questionText (entries ! i) = q_questionText ((q # qs) ! i) \<and>
      isCorrect (entries ! i) = answeredCorrectly r ((q # qs) ! i) \<and>
      feedback (entries ! i) =
        ''AI-powered feedback is temporarily unavailable for this question.'' \<and>
      suggestedScoreOutOfTen (entries ! i) = None"
    if "i < length (q # qs)" for i
  proof (cases i)
    case 0
    with head show ?thesis by (simp add: entries)
  next
    case (Suc j)
    with that have "j < length qs" by simp
    with tail Suc show ?thesis by (simp add: entries)
  qed
  have "length entries = length (q # qs)"
    using tail by (simp add: entries)
  moreover have "c' = c + length (filter (answeredCorrectly r) (q # qs))"
    using tail head(1) by simp
  moreover have "t' = t + length (filter (\<lambda>q. q_type q = objective) (q # qs))"
    using tail head(2) by simp
  ultimately show ?case using each by blast
qed

text \<open>
  The basic report when \<^verbatim>\<open>generateBasicReport\<close> returns one, and when it does: it throws
  exactly when some subjective question of the test has no stored response and an id
  that names an inherited property.
\<close>

lemma generateBasicReport_Inr:
  assumes "generateBasicReport t = Inr report"
  shows "overallFeedback report = ''Basic report generated. AI analysis is temporarily unavailable. This report primarily reflects performance on objective questions.''"
    and "overallScore report =
           (if length (filter (\<lambda>q. q_type q = objective) (ts_questions t)) > 0
            then Some (toDouble (toDouble
                   (of_nat (length (filter (answeredCorrectly (ts_userResponses t)) (ts_questions t))) /
                    of_nat (length (filter (\<lambda>q. q_type q = objective) (ts_questions t)))) * 100))
            else None)"
    and "length (questionAnalyses report) = length (ts_questions t)"
    and "\<forall>i < length (ts_questions t).
            questionId (questionAnalyses report ! i) = q_id (ts_questions t ! i) \<and>
            qa_questionText (questionAnalyses report ! i) = q_questionText (ts_questions t ! i) \<and>
            isCorrect (questionAnalyses report ! i) =
              answeredCorrectly (ts_userResponses t) (ts_questions t ! i) \<and>
            feedback (questionAnalyses report ! i) =
              ''AI-powered feedback is temporarily unavailable for this question.'' \<and>
            suggestedScoreOutOfTen (questionAnalyses report ! i) = None"
proof -
  from assms obtain entries c n where
    run: "basicAnalyses (ts_userResponses t) (ts_questions t) (0, 0) = Inr (entries, c, n)"
    by (auto simp: generateBasicReport_def split: sum.splits)
  note counted = basicAnalyses_Inr [OF run]
  from counted have c: "c = length (filter (answeredCorrectly (ts_userResponses t)) (ts_questions t))"
    and n: "n = length (filter (\<lambda>q. q_type q = objective) (ts_questions t))"
    by simp_all
  from assms run have report: "report =
      \<lparr>overallScore = (if n > 0 then Some (toDouble (toDouble (of_nat c / of_nat n) * 100)) else None),
       overallFeedback = ''Basic report generated. AI analysis is temporarily unavailable. This report primarily reflects performance on objective questions.'',
       questionAnalyses = entries\<rparr>"
    by (simp add: generateBasicReport_def)
  show "overallFeedback report = ''Basic report generated. AI analysis is temporarily unavailable. This report primarily reflects performance on objective questions.''"
    by (simp add: report)
  show "overallScore report =
           (if length (filter (\<lambda>q. q_type q = objective) (ts_questions t)) > 0
            then Some (toDouble (toDouble
                   (of_nat (length (filter (answeredCorrectly (ts_userResponses t)) (ts_questions t))) /
                    of_nat (length (filter (\<lambda>q. q_type q = objective) (ts_questions t)))) * 100))
            else None)"
    unfolding c [symmetric] n [symmetric] by (simp add: report)
  show "length (questionAnalyses report) = length (ts_questions t)"
    using counted by (simp add: report)
  show "\<forall>i < length (ts_questions t).
            questionId (questionAnalyses report ! i) = q_id (ts_questions t ! i) \<and>
            qa_questionText (questionAnalyses report ! i) = q_questionText (ts_questions t ! i) \<and>
            isCorrect (questionAnalyses report ! i) =
              answeredCorrectly (ts_userResponses t) (ts_questions t ! i) \<and>
            feedback (questionAnalyses report ! i) =
              ''AI-powered feedback is temporarily unavailable for this question.'' \<and>
            suggestedScoreOutOfTen (questionAnalyses report ! i) = None"
    using counted by (simp add: report)
qed

lemma generateBasicReport_returns:
  assumes "\<forall>q \<in> set (ts_questions t). q_type q = objective \<or> \<not> readsInherited (ts_userResponses t) q"
  shows "\<exists>report. generateBasicReport t = Inr report"
proof -
  from basicAnalyses_returns [OF assms, of "(0, 0)"] obtain entries c n where
    "basicAnalyses (ts_userResponses t) (ts_questions t) (0, 0) = Inr (entries, c, n)"
    by auto
  then show ?thesis by (simp add: generateBasicReport_def)
qed

lemma generateBasicReport_throws:
  assumes "\<exists>q \<in> set (ts_questions t). q_type q = subjective \<and> readsInherited (ts_userResponses t) q"
  shows "generateBasicReport t = Inl (Error ''userAnswerValue?.trim is not a function'')"
  using basicAnalyses_throws [OF assms, of "(0, 0)"] by (simp add: generateBasicReport_def)

lemma modelOverloaded_nonempty: "modelOverloaded message \<Longrightarrow> message \<noteq> []"
  by (auto simp: modelOverloaded_def toLowerCase_def)

lemma analysisResult_fallback:
  assumes "thePrompt (processedDataForPrompt (analysisInput t)) = Inl (Error message)"
    and "modelOverloaded message"
  shows "analysisResult thePrompt t = generateBasicReport t"
  using assms modelOverloaded_nonempty [OF assms(2)]
  by (simp add: analysisResult_def analyzeTestResults_def analyzeTestResultsInternalFlow_def
      defineFlow_def analyzeTestResultsInternalFlow_body_def)


text \<open>
  For every other test the fallback is as the claim has it: when no subjective question
  of the test reads an inherited value, the submission gets the basic report and no
  error. The feedback of the report says that the analysis is unavailable; its score is
  the share of the objective questions whose stored response is their answer key, as
  a percentage and a double, or null when the test has no objective question; it has
  one entry for every question, in order, with the question's id and text, the feedback
  that AI feedback is unavailable and no suggested score; and the entry of an objective
  question is correct exactly when the stored response is non-empty and equal to the
  answer key, the entry of a subjective question never.
\<close>

lemma analysisResult_basic_report:
  assumes "thePrompt (processedDataForPrompt (analysisInput t)) = Inl (Error message)"
    and "modelOverloaded message"
    and "\<forall>q \<in> set (ts_questions t). q_type q = objective \<or> \<not> readsInherited (ts_userResponses t) q"
  shows "\<exists>report.
           analysisResult thePrompt t = Inr report \<and>
           overallFeedback report = ''Basic report generated. AI analysis is temporarily unavailable. This report primarily reflects performance on objective questions.'' \<and>
           overallScore report =
             (if length (filter (\<lambda>q. q_type q = objective) (ts_questions t)) > 0
              then Some (toDouble (toDouble
                     (of_nat (length (filter (answeredCorrectly (ts_userResponses t)) (ts_questions t))) /
                      of_nat (length (filter (\<lambda>q. q_type q = objective) (ts_questions t)))) * 100))
              else None) \<and>
           length (questionAnalyses report) = length (ts_questions t) \<and>
           (\<forall>i < length (ts_questions t).
              questionId (questionAnalyses report ! i) = q_id (ts_questions t ! i) \<and>
              qa_questionText (questionAnalyses report ! i) = q_questionText (ts_questions t ! i) \<and>
              isCorrect (questionAnalyses report ! i) =
                answeredCorrectly (ts_userResponses t) (ts_questions t ! i) \<and>
              (q_type (ts_questions t ! i) = subjective \<longrightarrow> \<not> isCorrect (questionAnalyses report ! i)) \<and>
              feedback (questionAnalyses report ! i) =
                ''AI-powered feedback is temporarily unavailable for this question.'' \<and>
              suggestedScoreOutOfTen (questionAnalyses report ! i) = None)"
proof -
  from generateBasicReport_returns [OF assms(3)] obtain report where
    report: "generateBasicReport t = Inr report" by blast
  have sub: "\<not> answeredCorrectly (ts_userResponses t) q" if "q_type q = subjective" for q
    using that by (simp add: answeredCorrectly_def)
  show ?thesis
    using analysisResult_fallback [of thePrompt t message] assms(1,2)
      generateBasicReport_Inr [OF report] sub
    by (intro exI [of _ report]) (simp add: report)
qed

lemma analysisResult_mixedTest:
  "\<exists>report. analysisResult overloadedPrompt mixedTest = Inr report \<and>
     overallScore report = Some 50 \<and>
     map isCorrect (questionAnalyses report) = [True, False, False] \<and>
     map userAnswerText (questionAnalyses report) = [''Paris'', ''Rome'', ''Because''] \<and>
     map suggestedScoreOutOfTen (questionAnalyses report) = [None, None, None]"
proof -
  have "modelOverloaded ''[503 Service Unavailable] The model is overloaded.''"
    by (simp add: modelOverloaded_def)
  then have "analysisResult overloadedPrompt mixedTest = generateBasicReport mixedTest"
    by (intro analysisResult_fallback) (simp_all add: overloadedPrompt_def)
  then show ?thesis
    by (simp add: generateBasicReport_def basicAnalysis_def basicEntry_def mixedTest_def
        exampleQuestion_def capitalOptions_def getProperty_def objectPrototypeKeys_def
        truthy_value_def or_else_def trim_def isWhiteSpace_def toDouble_examples)
qed

text \<open>
  C7, as the code has it. For a submitted test with at least one question, in which every
  question is objective and has a non-empty stored response equal to its answer key,
  the fallback yields a basic report, the report has the score 100 and every entry of
  it is correct. And for a test with no objective question (one with no question at
  all, say) a report that the fallback yields has the score null: the report divides
  by the number of objective questions only when there is one.
\<close>

theorem generateBasicReport_all_correct:
  "(ts_questions t \<noteq> [] \<and>
    (\<forall>q \<in> set (ts_questions t).
       q_type q = objective \<and>
       (\<exists>v. v \<noteq> [] \<and> storedResponse (ts_userResponses t) q = Some v \<and>
            q_correctAnswerKey q = Some v)) \<longrightarrow>
    (\<exists>report. generateBasicReport t = Inr report \<and>
       overallScore report = Some 100 \<and>
       length (questionAnalyses report) = length (ts_questions t) \<and>
       (\<forall>a \<in> set (questionAnalyses report). isCorrect a))) \<and>
   ((\<forall>q \<in> set (ts_questions t). q_type q \<noteq> objective) \<longrightarrow>
    (\<forall>report. generateBasicReport t = Inr report \<longrightarrow> overallScore report = None))"
proof (intro conjI impI allI)
  let ?r = "ts_userResponses t" and ?qs = "ts_questions t"
  assume "?qs \<noteq> [] \<and>
    (\<forall>q \<in> set ?qs. q_type q = objective \<and>
       (\<exists>v. v \<noteq> [] \<and> storedResponse ?r q = Some v \<and> q_correctAnswerKey q = Some v))"
  then have nonempty: "?qs \<noteq> []" and
    every: "\<forall>q \<in> set ?qs. q_type q = objective \<and>
       (\<exists>v. v \<noteq> [] \<and> storedResponse ?r q = Some v \<and> q_correctAnswerKey q = Some v)"
    by simp_all
  from every have all: "\<forall>q \<in> set ?qs. answeredCorrectly ?r q"
    by (auto simp: answeredCorrectly_def)
  then have c: "filter (answeredCorrectly ?r) ?qs = ?qs" by simp
  from every have n: "filter (\<lambda>q. q_type q = objective) ?qs = ?qs" by simp
  from every have "\<forall>q \<in> set ?qs. q_type q = objective \<or> \<not> readsInherited ?r q" by simp
  from generateBasicReport_returns [OF this] obtain report where
    report: "generateBasicReport t = Inr report" by blast
  note fields = generateBasicReport_Inr [OF report]
  from nonempty have pos: "0 < length ?qs" by simp
  then have "(of_nat (length ?qs) :: rat) / of_nat (length ?qs) = 1" by simp
  with pos have score: "overallScore report = Some 100"
    by (simp only: fields(2) c n if_True) (simp add: toDouble_1 toDouble_100)
  have "isCorrect a" if "a \<in> set (questionAnalyses report)" for a
  proof -
    from that obtain i where i: "i < length ?qs" and a: "a = questionAnalyses report ! i"
      by (auto simp: in_set_conv_nth fields(3))
    from i all have "answeredCorrectly ?r (?qs ! i)" by simp
    with i a fields(4) show ?thesis by simp
  qed
  with score fields(3) report
  show "\<exists>report. generateBasicReport t = Inr report \<and>
       overallScore report = Some 100 \<and>
       length (questionAnalyses report) = length (ts_questions t) \<and>
       (\<forall>a \<in> set (questionAnalyses report). isCorrect a)"
    by blast
next
  fix report
  assume none: "\<forall>q \<in> set (ts_questions t). q_type q \<noteq> objective"
    and report: "generateBasicReport t = Inr report"
  from none have "filter (\<lambda>q. q_type q = objective) (ts_questions t) = []"
    by (simp add: filter_empty_conv)
  then show "overallScore report = None"
    by (simp add: generateBasicReport_Inr(2) [OF report])
qed

theorem generateBasicReport_all_correct_witness:
  "ts_questions capitalsTest \<noteq> [] \<and>
   map q_type (ts_questions capitalsTest) = [objective, objective] \<and>
   map (storedResponse (ts_userResponses capitalsTest)) (ts_questions capitalsTest) =
     map q_correctAnswerKey (ts_questions capitalsTest) \<and>
   (\<exists>report. generateBasicReport capitalsTest = Inr report \<and>
      overallScore report = Some 100 \<and>
      map isCorrect (questionAnalyses report) = [True, True]) \<and>
   map q_type (ts_questions essayTest) = [subjective] \<and>
   (\<exists>report. generateBasicReport essayTest = Inr report \<and> overallScore report = None)"
proof -
  have capitals: "ts_questions capitalsTest \<noteq> [] \<and>
      map q_type (ts_questions capitalsTest) = [objective, objective] \<and>
      map (storedResponse (ts_userResponses capitalsTest)) (ts_questions capitalsTest) =
        map q_correctAnswerKey (ts_questions capitalsTest)"
    by (simp add: capitalsTest_def exampleQuestion_def storedResponse_def)
  have "ts_questions capitalsTest \<noteq> [] \<and>
      (\<forall>q \<in> set (ts_questions capitalsTest).
         q_type q = objective \<and>
         (\<exists>v. v \<noteq> [] \<and> storedResponse (ts_userResponses capitalsTest) q = Some v \<and>
              q_correctAnswerKey q = Some v))"
    by (simp add: capitalsTest_def exampleQuestion_def storedResponse_def)
  with generateBasicReport_all_correct [of capitalsTest] obtain report where
    report: "generateBasicReport capitalsTest = Inr report" "overallScore report = Some 100"
      "length (questionAnalyses report) = length (ts_questions capitalsTest)"
      "\<forall>a \<in> set (questionAnalyses report). isCorrect a"
    by blast
  from report(3) have "length (questionAnalyses report) = 2"
    by (simp add: capitalsTest_def)
  then obtain a b where "questionAnalyses report = [a, b]"
    by (cases "questionAnalyses report"; cases "tl (questionAnalyses report)") auto
  with report(4) have "map isCorrect (questionAnalyses report) = [True, True]" by simp
  with report(1,2) have all: "\<exists>report. generateBasicReport capitalsTest = Inr report \<and>
      overallScore report = Some 100 \<and> map isCorrect (questionAnalyses report) = [True, True]"
    by (intro exI [of _ report]) simp
  have essay: "map q_type (ts_questions essayTest) = [subjective]"
    by (simp add: essayTest_def exampleQuestion_def)
  then have "\<forall>q \<in> set (ts_questions essayTest). q_type q \<noteq> objective"
    by (simp add: essayTest_def exampleQuestion_def)
  with generateBasicReport_all_correct [of essayTest]
  have null: "\<forall>report. generateBasicReport essayTest = Inr report \<longrightarrow> overallScore report = None"
    by blast
  have "\<exists>report. generateBasicReport essayTest = Inr report"
    by (simp add: generateBasicReport_def basicAnalysis_def basicEntry_def essayTest_def
        exampleQuestion_def getProperty_def objectPrototypeKeys_def truthy_value_def or_else_def
        trim_def isWhiteSpace_def)
  with null have "\<exists>report. generateBasicReport essayTest = Inr report \<and> overallScore report = None"
    by blast
  with capitals all essay show ?thesis by blast
qed

theorem generateBasicReport_empty_counterexample:
  "ts_questions emptyTest = [] \<and>
   (\<exists>report. generateBasicReport emptyTest = Inr report \<and>
      overallScore report = None \<and> overallScore report \<noteq> Some 100)"
  by (simp add: generateBasicReport_def emptyTest_def)

subsection \<open>The order of a study plan\<close>

text \<open>
  The sort keeps the elements of the array; and when the comparator is the difference
  of a key that is a number on every element, the result is in the order of the key.
\<close>

lemma mset_insertSorted: "mset (insertSorted cmp x ys) = add_mset x (mset ys)"
  by (induction ys) auto

lemma sort_js_Cons: "sort_js cmp (x # xs) = insertSorted cmp x (sort_js cmp xs)"
  by (simp add: sort_js_def)

lemma mset_sort_js: "mset (sort_js cmp xs) = mset xs"
  by (induction xs) (simp_all add: sort_js_Cons mset_insertSorted, simp add: sort_js_def)

lemma set_sort_js: "set (sort_js cmp xs) = set xs"
  using mset_sort_js [of cmp xs] by (metis set_mset_mset)

lemma set_insertSorted: "set (insertSorted cmp x ys) = insert x (set ys)"
  using mset_insertSorted [of cmp x ys] by (metis set_mset_mset set_mset_add_mset_insert)

lemma sorted_insertSorted:
  assumes "key x \<noteq> None" and "\<forall>y \<in> set ys. key y \<noteq> None"
    and "sorted_wrt (\<lambda>a b. le_js (key a) (key b)) ys"
  shows "sorted_wrt (\<lambda>a b. le_js (key a) (key b))
           (insertSorted (\<lambda>u v. minus_js (key u) (key v)) x ys)"
  using assms
proof (induction ys)
  case Nil
  then show ?case by simp
next
  case (Cons y ys)
  from Cons.prems obtain a b where a: "key x = Some a" and b: "key y = Some b" by auto
  have cmp: "SortCompare (\<lambda>u v. minus_js (key u) (key v)) x y = a - b"
    using a b by (simp add: SortCompare_def minus_js_def)
  show ?case
  proof (cases "a \<le> b")
    case True
    have "le_js (key x) (key z)" if "z \<in> set ys" for z
    proof -
      from Cons.prems(3) that have "le_js (key y) (key z)" by simp
      with a b True show ?thesis by (auto simp: le_js_def split: option.splits)
    qed
    with True a b Cons.prems(3) show ?thesis
      by (simp add: cmp le_js_def)
  next
    case False
    have "sorted_wrt (\<lambda>a b. le_js (key a) (key b))
        (insertSorted (\<lambda>u v. minus_js (key u) (key v)) x ys)"
      using Cons.IH Cons.prems by simp
    moreover have "le_js (key y) (key z)"
      if "z \<in> set (insertSorted (\<lambda>u v. minus_js (key u) (key v)) x ys)" for z
      using that False a b Cons.prems(3) by (auto simp: set_insertSorted le_js_def)
    ultimately show ?thesis
      using False by (simp add: cmp)
  qed
qed

lemma sorted_sort_js:
  assumes "\<forall>x \<in> set xs. key x \<noteq> None"
  shows "sorted_wrt (\<lambda>a b. le_js (key a) (key b)) (sort_js (\<lambda>u v. minus_js (key u) (key v)) xs)"
  using assms
proof (induction xs)
  case Nil
  then show ?case by (simp add: sort_js_def)
next
  case (Cons x xs)
  then show ?case
    by (simp add: sort_js_Cons sorted_insertSorted set_sort_js)
qed

text \<open>On such a comparator the sort is the stable sort of the library.\<close>

lemma insertSorted_insort_key:
  assumes "key x \<noteq> None" and "\<forall>y \<in> set ys. key y \<noteq> None"
  shows "insertSorted (\<lambda>u v. minus_js (key u) (key v)) x ys = insort_key (\<lambda>u. the (key u)) x ys"
  using assms
  by (induction ys) (auto simp: SortCompare_def minus_js_def)

lemma sort_js_sort_key:
  assumes "\<forall>x \<in> set xs. key x \<noteq> None"
  shows "sort_js (\<lambda>u v. minus_js (key u) (key v)) xs = sort_key (\<lambda>u. the (key u)) xs"
  using assms
proof (induction xs)
  case Nil
  then show ?case by (simp add: sort_js_def)
next
  case (Cons x xs)
  then have "sort_js (\<lambda>u v. minus_js (key u) (key v)) xs = sort_key (\<lambda>u. the (key u)) xs"
    by simp
  moreover have "\<forall>y \<in> set (sort_key (\<lambda>u. the (key u)) xs). key y \<noteq> None"
    using Cons.prems by simp
  ultimately show ?case
    using Cons.prems by (simp add: sort_js_Cons insertSorted_insort_key sort_key_def)
qed

lemma compareDays_key:
  "compareDays getTime = (\<lambda>u v. minus_js (getTime (ds_date u)) (getTime (ds_date v)))"
  by (simp add: compareDays_def fun_eq_iff)

lemma compareSessions_key:
  "compareSessions = (\<lambda>u v. minus_js (convertTime (startTime u)) (convertTime (startTime v)))"
  by (simp add: compareSessions_def fun_eq_iff)

lemma sorted_days:
  assumes "\<forall>day \<in> set days. getTime (ds_date day) \<noteq> None"
  shows "sorted_wrt (\<lambda>a b. le_js (getTime (ds_date a)) (getTime (ds_date b)))
           (sort_js (compareDays getTime) days)"
  unfolding compareDays_key using assms by (rule sorted_sort_js)

lemma sorted_sessions:
  assumes "\<forall>s \<in> set ss. convertTime (startTime s) \<noteq> None"
  shows "sorted_wrt (\<lambda>a b. le_js (convertTime (startTime a)) (convertTime (startTime b)))
           (sort_js compareSessions ss)"
  unfolding compareSessions_key using assms by (rule sorted_sort_js)

text \<open>The pieces of a clock time, and its conversion.\<close>

lemma split_no_separator: "c \<notin> set xs \<Longrightarrow> split c xs = [xs]"
  by (induction xs) auto

lemma split_at_separator: "c \<notin> set xs \<Longrightarrow> split c (xs @ c # ys) = xs # split c ys"
  by (induction xs) auto

lemma separator_no_digit: "\<not> isDigit CHR '':''" "\<not> isDigit CHR '' ''"
  by (simp_all add: isDigit_def)

lemma digits_no_separator:
  assumes "list_all isDigit h"
  shows "CHR '':'' \<notin> set h \<and> CHR '' '' \<notin> set h"
proof -
  from assms have "\<forall>c \<in> set h. isDigit c" by (simp add: list_all_iff)
  with separator_no_digit show ?thesis by blast
qed

lemma split_clock:
  assumes "list_all isDigit h" and "list_all isDigit m" and "CHR '' '' \<notin> set md"
  shows "split CHR '' '' (h @ '':'' @ m @ '' '' @ md) = [h @ '':'' @ m, md]"
    and "split CHR '':'' (h @ '':'' @ m) = [h, m]"
proof -
  from assms(1,2) have "CHR '' '' \<notin> set (h @ '':'' @ m)"
    by (auto dest: digits_no_separator)
  from split_at_separator [OF this, of md] assms(3)
  show "split CHR '' '' (h @ '':'' @ m @ '' '' @ md) = [h @ '':'' @ m, md]"
    by (simp add: split_no_separator)
  from assms(1) have "CHR '':'' \<notin> set h" by (auto dest: digits_no_separator)
  from split_at_separator [OF this, of m] assms(2)
  show "split CHR '':'' (h @ '':'' @ m) = [h, m]"
    by (simp add: split_no_separator digits_no_separator)
qed

lemma convertTime_clock:
  assumes "list_all isDigit h" and "list_all isDigit m"
  shows "convertTime (h @ '':'' @ m @ '' AM'') =
           Some ((if decimal h = 12 then 0 else decimal h) * 60 + decimal m)"
    and "convertTime (h @ '':'' @ m @ '' PM'') =
           Some ((if decimal h < 12 then decimal h + 12 else decimal h) * 60 + decimal m)"
proof -
  have am: "split CHR '' '' (h @ '':'' @ m @ '' AM'') = [h @ '':'' @ m, ''AM'']"
    using split_clock(1) [OF assms, of "''AM''"] by simp
  have pm: "split CHR '' '' (h @ '':'' @ m @ '' PM'') = [h @ '':'' @ m, ''PM'']"
    using split_clock(1) [OF assms, of "''PM''"] by simp
  have hm: "map Number (split CHR '':'' (h @ '':'' @ m)) = [Some (decimal h), Some (decimal m)]"
    using split_clock(2) [OF assms, of "[]"] assms by (simp add: Number_def)
  show "convertTime (h @ '':'' @ m @ '' AM'') =
           Some ((if decimal h = 12 then 0 else decimal h) * 60 + decimal m)"
    unfolding convertTime_def am Let_def element.simps option.case hm by simp
  show "convertTime (h @ '':'' @ m @ '' PM'') =
           Some ((if decimal h < 12 then decimal h + 12 else decimal h) * 60 + decimal m)"
    unfolding convertTime_def pm Let_def element.simps option.case hm by simp
qed

lemma mset_concat_map:
  assumes "mset xs = mset ys"
  shows "mset (concat (map f xs)) = mset (concat (map f ys))"
proof -
  have sum: "mset (concat (map f zs)) = sum_mset (image_mset (\<lambda>x. mset (f x)) (mset zs))" for zs
    by (induction zs) simp_all
  show ?thesis unfolding sum assms ..
qed

lemma dailySessions_sortPlan:
  "dailySessions (sortPlan getTime out) =
     map (\<lambda>day. day\<lparr>sessions := sort_js compareSessions (sessions day)\<rparr>)
       (sort_js (compareDays getTime) (dailySessions out))"
  by (simp add: sortPlan_def)

text \<open>
  C4, as the code has it. When the model returns a plan in which every date parses to a
  time value and every start time converts to a number, \<open>generateStudyPlan\<close> returns
  the plan with the days in non-decreasing order of their dates and, in every day, the
  sessions in non-decreasing order of their converted start times, whatever the order
  of the model's days and sessions was; the days and the sessions are those of the
  model's plan.
  The conversion of a start time \<^verbatim>\<open>hh:mm AM\<close> or \<^verbatim>\<open>hh:mm PM\<close> (two runs of digits)
  is a number, the minutes since midnight: the hour 12 counts as 0 for \<^verbatim>\<open>AM\<close>, and 12
  is added to an hour below 12 for \<^verbatim>\<open>PM\<close>.
\<close>

theorem generateStudyPlan_sorted:
  assumes "prompt (studyPlanPromptInput today input) = Inr (Some out)"
    and "\<forall>day \<in> set (dailySessions out). getTime (ds_date day) \<noteq> None"
    and "\<forall>day \<in> set (dailySessions out). \<forall>s \<in> set (sessions day). convertTime (startTime s) \<noteq> None"
  shows "fst (generateStudyPlan getTime today prompt input) = Inr (sortPlan getTime out) \<and>
         sorted_wrt (\<lambda>a b. le_js (getTime (ds_date a)) (getTime (ds_date b)))
           (dailySessions (sortPlan getTime out)) \<and>
         (\<forall>day \<in> set (dailySessions (sortPlan getTime out)).
            sorted_wrt (\<lambda>s1 s2. le_js (convertTime (startTime s1)) (convertTime (startTime s2)))
              (sessions day)) \<and>
         mset (map ds_date (dailySessions (sortPlan getTime out))) =
           mset (map ds_date (dailySessions out)) \<and>
         mset (concat (map sessions (dailySessions (sortPlan getTime out)))) =
           mset (concat (map sessions (dailySessions out))) \<and>
         (\<forall>h m. list_all isDigit h \<and> list_all isDigit m \<longrightarrow>
            convertTime (h @ '':'' @ m @ '' AM'') =
              Some ((if decimal h = 12 then 0 else decimal h) * 60 + decimal m) \<and>
            convertTime (h @ '':'' @ m @ '' PM'') =
              Some ((if decimal h < 12 then decimal h + 12 else decimal h) * 60 + decimal m))"
proof -
  let ?days = "sort_js (compareDays getTime) (dailySessions out)"
  let ?fix = "\<lambda>day. day\<lparr>sessions := sort_js compareSessions (sessions day)\<rparr>"
  have result: "fst (generateStudyPlan getTime today prompt input) = Inr (sortPlan getTime out)"
    using assms(1)
    by (simp add: generateStudyPlan_def generateStudyPlanFlow_def defineFlow_def
        generateStudyPlanFlow_body_def)
  have "sorted_wrt (\<lambda>a b. le_js (getTime (ds_date a)) (getTime (ds_date b))) ?days"
    using assms(2) by (rule sorted_days)
  then have days: "sorted_wrt (\<lambda>a b. le_js (getTime (ds_date a)) (getTime (ds_date b)))
      (dailySessions (sortPlan getTime out))"
    by (simp add: dailySessions_sortPlan sorted_wrt_map)
  have sess: "sorted_wrt (\<lambda>s1 s2. le_js (convertTime (startTime s1)) (convertTime (startTime s2)))
      (sessions day)" if "day \<in> set (dailySessions (sortPlan getTime out))" for day
  proof -
    from that obtain d where d: "d \<in> set (dailySessions out)" and day: "day = ?fix d"
      by (auto simp: dailySessions_sortPlan set_sort_js)
    from assms(3) d have "\<forall>s \<in> set (sessions d). convertTime (startTime s) \<noteq> None" by blast
    then show ?thesis unfolding day by (simp add: sorted_sessions)
  qed
  have "map ds_date (map ?fix ?days) = map ds_date ?days" by simp
  then have dates: "mset (map ds_date (dailySessions (sortPlan getTime out))) =
      mset (map ds_date (dailySessions out))"
    by (simp only: dailySessions_sortPlan mset_map mset_sort_js)
  have fixed: "mset (concat (map sessions (map ?fix ds))) = mset (concat (map sessions ds))"
    for ds :: "DailySessions list"
    by (induction ds) (simp_all add: mset_sort_js)
  have "mset (concat (map sessions ?days)) = mset (concat (map sessions (dailySessions out)))"
    by (rule mset_concat_map) (rule mset_sort_js)
  with fixed [of ?days] have all: "mset (concat (map sessions (dailySessions (sortPlan getTime out)))) =
      mset (concat (map sessions (dailySessions out)))"
    by (simp only: dailySessions_sortPlan)
  have clock: "convertTime (h @ '':'' @ m @ '' AM'') =
        Some ((if decimal h = 12 then 0 else decimal h) * 60 + decimal m) \<and>
      convertTime (h @ '':'' @ m @ '' PM'') =
        Some ((if decimal h < 12 then decimal h + 12 else decimal h) * 60 + decimal m)"
    if "list_all isDigit h \<and> list_all isDigit m" for h m
    using that convertTime_clock [of h m] by blast
  show ?thesis
    by (intro conjI ballI allI impI result days sess dates all) (use clock in blast)+
qed

lemma convertTime_examples:
  "convertTime ''01:00 PM'' = Some 780" "convertTime ''12:30 AM'' = Some 30"
  "convertTime ''09:15 AM'' = Some 555" "convertTime ''12:00 PM'' = Some 720"
  "convertTime ''11:00 AM'' = Some 660"
  by (simp_all add: convertTime_def Number_def isDigit_def decimal_def digitValue_def)

theorem generateStudyPlan_sorted_witness:
  "shuffledPrompt (studyPlanPromptInput ''2025-02-28'' examplePlanInput) = Inr (Some shuffledPlan) \<and>
   map (\<lambda>day. exampleGetTime (ds_date day)) (dailySessions shuffledPlan) =
     [Some 1740873600000, Some 1740787200000] \<and>
   map (\<lambda>day. map (\<lambda>s. convertTime (startTime s)) (sessions day)) (dailySessions shuffledPlan) =
     [[Some 780, Some 30, Some 555], [Some 720, Some 660]] \<and>
   fst (generateStudyPlan exampleGetTime ''2025-02-28'' shuffledPrompt examplePlanInput) =
     Inr (sortPlan exampleGetTime shuffledPlan) \<and>
   map (\<lambda>day. (ds_date day, map startTime (sessions day)))
     (dailySessions (sortPlan exampleGetTime shuffledPlan)) =
     [(''2025-03-01'', [''11:00 AM'', ''12:00 PM'']),
      (''2025-03-02'', [''12:30 AM'', ''09:15 AM'', ''01:00 PM''])]"
  using generateStudyPlan_sorted [of shuffledPrompt "''2025-02-28''" examplePlanInput shuffledPlan
      exampleGetTime]
  by (simp add: shuffledPrompt_def shuffledPlan_def exampleSession_def exampleGetTime_def
      convertTime_examples sortPlan_def sort_js_def SortCompare_def compareDays_def
      compareSessions_def minus_js_def)

text \<open>
  A start time outside the format has no conversion: the comparator is \<^verbatim>\<open>NaN\<close> on every
  pair it is in. The flow returns the plan below as the model gave it, with the session
  at 10:00 AM before the session at 09:00 AM.
\<close>

lemma misformatted_times:
  "map (\<lambda>s. convertTime (startTime s)) (concat (map sessions (dailySessions misformattedPlan))) =
     [Some 600, None, Some 540]"
  by (simp add: misformattedPlan_def exampleSession_def convertTime_def Number_def isDigit_def
      decimal_def digitValue_def)

theorem generateStudyPlan_order_counterexample:
  "fst (generateStudyPlan exampleGetTime ''2025-02-28'' misformattedPrompt examplePlanInput) =
     Inr misformattedPlan \<and>
   map startTime (concat (map sessions (dailySessions misformattedPlan))) =
     [''10:00 AM'', ''9:00AM'', ''09:00 AM''] \<and>
   convertTime ''10:00 AM'' = Some 600 \<and> convertTime ''9:00AM'' = None \<and>
   convertTime ''09:00 AM'' = Some 540 \<and>
   \<not> sorted_wrt (\<lambda>s1 s2. le_js (convertTime (startTime s1)) (convertTime (startTime s2)))
       (concat (map sessions (dailySessions misformattedPlan)))"
  using misformatted_times
  by (simp add: generateStudyPlan_def generateStudyPlanFlow_def defineFlow_def
      generateStudyPlanFlow_body_def misformattedPrompt_def
      sortPlan_def sort_js_def SortCompare_def compareDays_def compareSessions_def minus_js_def
      misformattedPlan_def exampleSession_def exampleGetTime_def le_js_def)

subsection \<open>Two runs on the same output of the model\<close>

text \<open>
  The decimal numeral of a number determines the number, so the synthesized id of a
  question determines the reading of the clock that it holds.
\<close>

lemma digit_char_inj: "m < 10 \<Longrightarrow> n < 10 \<Longrightarrow> digit_char m = digit_char n \<Longrightarrow> m = n"
proof -
  have "distinct ''0123456789''" by simp
  then show "m < 10 \<Longrightarrow> n < 10 \<Longrightarrow> digit_char m = digit_char n \<Longrightarrow> m = n"
    unfolding digit_char_def by (subst (asm) nth_eq_iff_index_eq) simp_all
qed

lemma toString_inj: "toString m = toString n \<Longrightarrow> m = n"
proof (induction m arbitrary: n rule: toString.induct)
  case (1 m)
  show ?case
  proof (cases "m < 10")
    case True
    then have m: "toString m = [digit_char m]" by (subst toString.simps) simp
    show ?thesis
    proof (cases "n < 10")
      case n: True
      then have "toString n = [digit_char n]" by (subst toString.simps) simp
      with m "1.prems" have "digit_char m = digit_char n" by simp
      with True n show ?thesis by (rule digit_char_inj)
    next
      case False
      then have "toString n = toString (n div 10) @ [digit_char (n mod 10)]"
        by (subst toString.simps) simp
      with m "1.prems" have "toString (n div 10) = []" by simp
      with toString_nonempty show ?thesis by blast
    qed
  next
    case False
    then have m: "toString m = toString (m div 10) @ [digit_char (m mod 10)]"
      by (subst toString.simps) simp
    show ?thesis
    proof (cases "n < 10")
      case True
      then have "toString n = [digit_char n]" by (subst toString.simps) simp
      with m "1.prems" have "toString (m div 10) = []" by simp
      with toString_nonempty show ?thesis by blast
    next
      case n: False
      then have "toString n = toString (n div 10) @ [digit_char (n mod 10)]"
        by (subst toString.simps) simp
      with m "1.prems" have eq: "toString (m div 10) = toString (n div 10)"
        and d: "digit_char (m mod 10) = digit_char (n mod 10)"
        by simp_all
      from "1.IH" [OF False eq] have "m div 10 = n div 10" .
      moreover have "m mod 10 = n mod 10"
        using d by (intro digit_char_inj) simp_all
      ultimately show ?thesis by (metis div_mult_mod_eq)
    qed
  qed
qed

text \<open>The sort of the days reads the parser at the dates of the days only.\<close>

lemma insertSorted_cong:
  assumes "\<forall>y \<in> set ys. cmp x y = cmp' x y"
  shows "insertSorted cmp x ys = insertSorted cmp' x ys"
  using assms by (induction ys) (simp_all add: SortCompare_def)

lemma sort_js_cong:
  assumes "\<forall>x \<in> set xs. \<forall>y \<in> set xs. cmp x y = cmp' x y"
  shows "sort_js cmp xs = sort_js cmp' xs"
  using assms
proof (induction xs)
  case Nil
  then show ?case by (simp add: sort_js_def)
next
  case (Cons x xs)
  then have "sort_js cmp xs = sort_js cmp' xs" by simp
  moreover have "\<forall>y \<in> set (sort_js cmp' xs). cmp x y = cmp' x y"
    using Cons.prems by (simp add: set_sort_js)
  ultimately show ?case by (simp add: sort_js_Cons insertSorted_cong)
qed

lemma sortPlan_cong:
  assumes "\<forall>day \<in> set (dailySessions plan). getTime (ds_date day) = getTime' (ds_date day)"
  shows "sortPlan getTime plan = sortPlan getTime' plan"
proof -
  have "sort_js (compareDays getTime) (dailySessions plan) =
      sort_js (compareDays getTime') (dailySessions plan)"
    using assms by (intro sort_js_cong) (simp add: compareDays_def)
  then show ?thesis by (simp add: sortPlan_def)
qed

text \<open>
  The synthesized id of a question holds the reading of the clock, and nothing else of
  the result depends on the clock.
\<close>

lemma questionWithIds_clock:
  assumes "\<not> truthy (gq_id q) \<longrightarrow> now i = now' i"
  shows "questionWithIds now (i, q) = questionWithIds now' (i, q)"
proof (cases "truthy (gq_id q)")
  case True
  then have "or_else (gq_id q) (''q_'' @ toString (now i) @ ''_'' @ toString i) =
      or_else (gq_id q) (''q_'' @ toString (now' i) @ ''_'' @ toString i)"
    by (simp add: truthy_def or_else_def split: option.splits)
  then show ?thesis by (simp add: questionWithIds_def)
next
  case False
  with assms show ?thesis by (simp add: questionWithIds_def)
qed

lemma backfillIds_clock:
  assumes "\<forall>i < length qs. \<not> truthy (gq_id (qs ! i)) \<longrightarrow> now i = now' i"
  shows "backfillIds now qs = backfillIds now' qs"
proof (rule nth_equalityI)
  show "length (backfillIds now qs) = length (backfillIds now' qs)"
    by (simp add: length_backfillIds)
next
  fix i assume "i < length (backfillIds now qs)"
  then have i: "i < length qs" by (simp add: length_backfillIds)
  with assms have "\<not> truthy (gq_id (qs ! i)) \<longrightarrow> now i = now' i" by blast
  then show "backfillIds now qs ! i = backfillIds now' qs ! i"
    by (simp add: backfillIds_nth [OF i] questionWithIds_clock)
qed

lemma backfillIds_new_id:
  assumes "i < length qs" "\<not> truthy (gq_id (qs ! i))"
  shows "gq_id (backfillIds now qs ! i) = Some (''q_'' @ toString (now i) @ ''_'' @ toString i)"
  using assms by (simp add: backfillIds_nth questionWithIds_id_new)

lemma backfillIds_clock_iff:
  "backfillIds now qs = backfillIds now' qs \<longleftrightarrow>
   (\<forall>i < length qs. \<not> truthy (gq_id (qs ! i)) \<longrightarrow> now i = now' i)"
proof
  assume eq: "backfillIds now qs = backfillIds now' qs"
  show "\<forall>i < length qs. \<not> truthy (gq_id (qs ! i)) \<longrightarrow> now i = now' i"
  proof (intro allI impI)
    fix i assume i: "i < length qs" and falsy: "\<not> truthy (gq_id (qs ! i))"
    have "gq_id (backfillIds now qs ! i) = gq_id (backfillIds now' qs ! i)"
      by (simp add: eq)
    then have "''q_'' @ toString (now i) @ ''_'' @ toString i =
        ''q_'' @ toString (now' i) @ ''_'' @ toString i"
      unfolding backfillIds_new_id [OF i falsy] by simp
    then have "toString (now i) = toString (now' i)" by simp
    then show "now i = now' i" by (rule toString_inj)
  qed
next
  assume "\<forall>i < length qs. \<not> truthy (gq_id (qs ! i)) \<longrightarrow> now i = now' i"
  then show "backfillIds now qs = backfillIds now' qs" by (rule backfillIds_clock)
qed

lemma generateTest_returns:
  assumes "prompt input = Inr (Some out)" "gt_questions out = Some qs"
    "0 < numObjective input + numSubjective input" "numObjective input + numSubjective input \<le> 20"
  shows "fst (generateTest now prompt input) = Inr (out\<lparr>gt_questions := Some (backfillIds now qs)\<rparr>)"
  using assms
  by (simp add: generateTest_def generateTestInternalFlow_def defineFlow_def
      generateTestInternalFlow_body_def)

lemma generateStudyPlan_returns:
  assumes "prompt (studyPlanPromptInput today input) = Inr (Some plan)"
  shows "fst (generateStudyPlan getTime today prompt input) = Inr (sortPlan getTime plan)"
  using assms
  by (simp add: generateStudyPlan_def generateStudyPlanFlow_def defineFlow_def
      generateStudyPlanFlow_body_def)

lemma analyzeTestResults_calls:
  "snd (analyzeTestResults thePrompt input) = [processedDataForPrompt input]"
  by (simp add: analyzeTestResults_def analyzeTestResultsInternalFlow_def defineFlow_calls
      analyzeTestResultsInternalFlow_body_def split: sum.splits option.splits)

lemma generateMultipleFlashcards_calls:
  "snd (generateMultipleFlashcards prompt input) =
     [input\<lparr>numberOfCards := Some (effectiveNumCards input)\<rparr>]"
  by (simp add: generateMultipleFlashcards_def generateMultipleFlashcardsFlow_def defineFlow_calls
      generateMultipleFlashcardsFlow_body_def split: sum.splits)

text \<open>
  C9, as the code has it. Take two runs of \<open>generateTest\<close>, each on a request that passes
  the input check, in which the model returns the same output. Each returns the output
  with the ids filled in, and the two results are equal exactly when the two clocks
  agree at every question whose id is missing or empty: the id synthesized for such a
  question holds the reading of the clock. So the results are equal whenever every
  question of the output has a non-empty id.
  Two runs of \<open>generateStudyPlan\<close> in which the model returns the same plan, on whatever
  requests and days, return the same plan, provided the two parsers of dates agree at
  the dates of the plan. What \<open>analyzeTestResults\<close> sends to the model is a function of
  its input, and the processed questions in it are a function of the questions and the
  responses. What \<open>generateMultipleFlashcards\<close> sends to the model is a function of its
  input, and the number of cards in it is a function of the number the caller gave.
\<close>

theorem postprocessing_deterministic:
  "(prompt input = Inr (Some out) \<and> prompt' input' = Inr (Some out) \<and> gt_questions out = Some qs \<and>
    0 < numObjective input + numSubjective input \<and> numObjective input + numSubjective input \<le> 20 \<and>
    0 < numObjective input' + numSubjective input' \<and> numObjective input' + numSubjective input' \<le> 20
      \<longrightarrow>
        fst (generateTest now prompt input) = Inr (out\<lparr>gt_questions := Some (backfillIds now qs)\<rparr>) \<and>
        fst (generateTest now' prompt' input') = Inr (out\<lparr>gt_questions := Some (backfillIds now' qs)\<rparr>) \<and>
        (fst (generateTest now prompt input) = fst (generateTest now' prompt' input') \<longleftrightarrow>
           (\<forall>i < length qs. \<not> truthy (gq_id (qs ! i)) \<longrightarrow> now i = now' i)) \<and>
        (\<forall>i < length qs. \<not> truthy (gq_id (qs ! i)) \<longrightarrow>
           gq_id (backfillIds now qs ! i) = Some (''q_'' @ toString (now i) @ ''_'' @ toString i))) \<and>
   (planPrompt (studyPlanPromptInput today planInput) = Inr (Some plan) \<and>
    planPrompt' (studyPlanPromptInput today' planInput') = Inr (Some plan) \<and>
    (\<forall>day \<in> set (dailySessions plan). getTime (ds_date day) = getTime' (ds_date day))
      \<longrightarrow> fst (generateStudyPlan getTime today planPrompt planInput) =
          fst (generateStudyPlan getTime' today' planPrompt' planInput')) \<and>
   snd (analyzeTestResults thePrompt analysisIn) = [processedDataForPrompt analysisIn] \<and>
   (ar_questions analysisIn = ar_questions analysisIn' \<and>
    ar_userResponses analysisIn = ar_userResponses analysisIn'
      \<longrightarrow> pd_questions (processedDataForPrompt analysisIn) =
          pd_questions (processedDataForPrompt analysisIn')) \<and>
   snd (generateMultipleFlashcards cardPrompt cardInput) =
     [cardInput\<lparr>numberOfCards := Some (effectiveNumCards cardInput)\<rparr>] \<and>
   (numberOfCards cardInput = numberOfCards cardInput'
      \<longrightarrow> effectiveNumCards cardInput = effectiveNumCards cardInput')"
proof -
  have test: "fst (generateTest now prompt input) = Inr (out\<lparr>gt_questions := Some (backfillIds now qs)\<rparr>) \<and>
      fst (generateTest now' prompt' input') = Inr (out\<lparr>gt_questions := Some (backfillIds now' qs)\<rparr>) \<and>
      (fst (generateTest now prompt input) = fst (generateTest now' prompt' input') \<longleftrightarrow>
         (\<forall>i < length qs. \<not> truthy (gq_id (qs ! i)) \<longrightarrow> now i = now' i)) \<and>
      (\<forall>i < length qs. \<not> truthy (gq_id (qs ! i)) \<longrightarrow>
         gq_id (backfillIds now qs ! i) = Some (''q_'' @ toString (now i) @ ''_'' @ toString i))"
    if "prompt input = Inr (Some out)" "prompt' input' = Inr (Some out)" "gt_questions out = Some qs"
      "0 < numObjective input + numSubjective input" "numObjective input + numSubjective input \<le> 20"
      "0 < numObjective input' + numSubjective input'" "numObjective input' + numSubjective input' \<le> 20"
  proof -
    have one: "fst (generateTest now prompt input) =
        Inr (out\<lparr>gt_questions := Some (backfillIds now qs)\<rparr>)"
      using that(1,3,4,5) by (rule generateTest_returns)
    have two: "fst (generateTest now' prompt' input') =
        Inr (out\<lparr>gt_questions := Some (backfillIds now' qs)\<rparr>)"
      using that(2,3,6,7) by (rule generateTest_returns)
    have "(out\<lparr>gt_questions := Some (backfillIds now qs)\<rparr> =
        out\<lparr>gt_questions := Some (backfillIds now' qs)\<rparr>) =
        (backfillIds now qs = backfillIds now' qs)"
      by (cases out) simp
    then have same: "fst (generateTest now prompt input) = fst (generateTest now' prompt' input') \<longleftrightarrow>
        (\<forall>i < length qs. \<not> truthy (gq_id (qs ! i)) \<longrightarrow> now i = now' i)"
      by (simp add: one two backfillIds_clock_iff)
    from one two same show ?thesis
      by (simp add: backfillIds_new_id)
  qed
  have planned: "fst (generateStudyPlan getTime today planPrompt planInput) =
      fst (generateStudyPlan getTime' today' planPrompt' planInput')"
    if "planPrompt (studyPlanPromptInput today planInput) = Inr (Some plan)"
      "planPrompt' (studyPlanPromptInput today' planInput') = Inr (Some plan)"
      "\<forall>day \<in> set (dailySessions plan). getTime (ds_date day) = getTime' (ds_date day)"
    using generateStudyPlan_returns [of planPrompt today planInput plan getTime]
      generateStudyPlan_returns [of planPrompt' today' planInput' plan getTime']
      sortPlan_cong [of plan getTime getTime'] that
    by simp
  have analysis: "pd_questions (processedDataForPrompt analysisIn) =
      pd_questions (processedDataForPrompt analysisIn')"
    if "ar_questions analysisIn = ar_questions analysisIn'"
      "ar_userResponses analysisIn = ar_userResponses analysisIn'"
    using that by (simp add: processedDataForPrompt_def processedQuestions_def)
  have cards: "effectiveNumCards cardInput = effectiveNumCards cardInput'"
    if "numberOfCards cardInput = numberOfCards cardInput'"
    using that by (simp add: effectiveNumCards_def)
  show ?thesis
    by (intro conjI impI analyzeTestResults_calls generateMultipleFlashcards_calls)
      (use test planned analysis cards in blast)+
qed

theorem postprocessing_deterministic_witness:
  "strayKeyPrompt (exampleTestInput 0 1) = Inr (Some \<lparr>gt_questions = Some [strayKeyQuestion]\<rparr>) \<and>
   strayKeyPrompt (exampleTestInput 1 1) = Inr (Some \<lparr>gt_questions = Some [strayKeyQuestion]\<rparr>) \<and>
   truthy (gq_id strayKeyQuestion) \<and>
   fst (generateTest exampleClock strayKeyPrompt (exampleTestInput 0 1)) =
     fst (generateTest laterClock strayKeyPrompt (exampleTestInput 1 1)) \<and>
   shuffledPrompt (studyPlanPromptInput ''2025-03-05'' examplePlanInput) = Inr (Some shuffledPlan) \<and>
   shuffledOncePrompt (studyPlanPromptInput ''2025-02-28'' examplePlanInput) = Inr (Some shuffledPlan) \<and>
   fst (generateStudyPlan exampleGetTime ''2025-03-05'' shuffledPrompt examplePlanInput) =
     fst (generateStudyPlan exampleGetTime ''2025-02-28'' shuffledOncePrompt examplePlanInput) \<and>
   pd_questions (processedDataForPrompt exampleAnalysisInput) =
     pd_questions (processedDataForPrompt (exampleAnalysisInput\<lparr>testTitle := ''History''\<rparr>)) \<and>
   effectiveNumCards exampleCardsInput = effectiveNumCards (exampleCardsInput\<lparr>topic := ''Sums''\<rparr>)"
proof -
  have model: "strayKeyPrompt (exampleTestInput 0 1) = Inr (Some \<lparr>gt_questions = Some [strayKeyQuestion]\<rparr>)"
    "strayKeyPrompt (exampleTestInput 1 1) = Inr (Some \<lparr>gt_questions = Some [strayKeyQuestion]\<rparr>)"
    "gt_questions \<lparr>gt_questions = Some [strayKeyQuestion]\<rparr> = Some [strayKeyQuestion]"
    by (simp_all add: strayKeyPrompt_def)
  have totals: "0 < numObjective (exampleTestInput 0 1) + numSubjective (exampleTestInput 0 1)"
    "numObjective (exampleTestInput 0 1) + numSubjective (exampleTestInput 0 1) \<le> 20"
    "0 < numObjective (exampleTestInput 1 1) + numSubjective (exampleTestInput 1 1)"
    "numObjective (exampleTestInput 1 1) + numSubjective (exampleTestInput 1 1) \<le> 20"
    by (simp_all add: exampleTestInput_def)
  have ids: "truthy (gq_id strayKeyQuestion)"
    by (simp add: strayKeyQuestion_def truthy_def)
  then have clocks: "\<forall>i < length [strayKeyQuestion].
      \<not> truthy (gq_id ([strayKeyQuestion] ! i)) \<longrightarrow> exampleClock i = laterClock i"
    by simp
  have plans: "shuffledPrompt (studyPlanPromptInput ''2025-03-05'' examplePlanInput) = Inr (Some shuffledPlan)"
    "shuffledOncePrompt (studyPlanPromptInput ''2025-02-28'' examplePlanInput) = Inr (Some shuffledPlan)"
    "\<forall>day \<in> set (dailySessions shuffledPlan). exampleGetTime (ds_date day) = exampleGetTime (ds_date day)"
    by (simp_all add: shuffledPrompt_def shuffledOncePrompt_def studyPlanPromptInput_def
        GenerateStudyPlanInput.defs StudyPlanPromptInput.defs)
  have requests: "ar_questions exampleAnalysisInput =
      ar_questions (exampleAnalysisInput\<lparr>testTitle := ''History''\<rparr>)"
    "ar_userResponses exampleAnalysisInput =
      ar_userResponses (exampleAnalysisInput\<lparr>testTitle := ''History''\<rparr>)"
    "numberOfCards exampleCardsInput = numberOfCards (exampleCardsInput\<lparr>topic := ''Sums''\<rparr>)"
    by simp_all
  show ?thesis
    using postprocessing_deterministic [where prompt = strayKeyPrompt and prompt' = strayKeyPrompt
        and input = "exampleTestInput 0 1" and input' = "exampleTestInput 1 1"
        and out = "\<lparr>gt_questions = Some [strayKeyQuestion]\<rparr>"
        and qs = "[strayKeyQuestion]" and now = exampleClock and now' = laterClock
        and planPrompt = shuffledPrompt and planPrompt' = shuffledOncePrompt
        and today = "''2025-03-05''" and today' = "''2025-02-28''"
        and planInput = examplePlanInput and planInput' = examplePlanInput
        and plan = shuffledPlan and getTime = exampleGetTime and getTime' = exampleGetTime
        and analysisIn = exampleAnalysisInput
        and analysisIn' = "exampleAnalysisInput\<lparr>testTitle := ''History''\<rparr>"
        and cardInput = exampleCardsInput
        and cardInput' = "exampleCardsInput\<lparr>topic := ''Sums''\<rparr>"]
      model totals ids clocks plans requests
    by blast
qed

text \<open>
  Two runs of \<open>generateTest\<close> on the same output of the model, a question with the empty
  id in it, at two readings of the clock: the ids differ.
\<close>

theorem generateTest_clock_counterexample:
  "blankIdPrompt (exampleTestInput 1 1) =
     Inr (Some \<lparr>gt_questions = Some [blankIdQuestion, essayQuestion]\<rparr>) \<and>
   gq_id blankIdQuestion = Some [] \<and>
   fst (generateTest exampleClock blankIdPrompt (exampleTestInput 1 1)) \<noteq>
   fst (generateTest laterClock blankIdPrompt (exampleTestInput 1 1))"
  by (simp add: generateTest_def generateTestInternalFlow_def defineFlow_def
      generateTestInternalFlow_body_def blankIdPrompt_def
      exampleTestInput_def backfillIds_def questionWithIds_def optionWithId_def or_else_def
      enumerate_eq_zip upt_rec blankIdQuestion_def essayQuestion_def exampleClock_def laterClock_def
      toString.simps digit_char_def)

end
